theory Spec2Isabelle
  imports Main "HOL-Library.Word" "HOL-Library.Char_ord" "HOL-Library.List_Lexorder"
begin

unbundle bit_operations_syntax

section \<open>The PDFId service: triage, carving, object streams\<close>

text \<open>
  This theory embeds \<^verbatim>\<open>src/pdf_id/pdf_id.py\<close> (class \<^verbatim>\<open>PDFId\<close>): the triage loop
  of \<^verbatim>\<open>analyze_pdf\<close>, its handling of carved content, \<^verbatim>\<open>write_objstm\<close>,
  \<^verbatim>\<open>analyze_objstm\<close> and \<^verbatim>\<open>execute\<close>.

  Conventions of the embedding.
  \<^item> A Python \<^verbatim>\<open>str\<close> is a \<open>string\<close>; each \<open>char\<close> stands for one code point in the range
    U+0000..U+00FF, so \<open>length\<close> counts code points as Python's \<^verbatim>\<open>len\<close> does. \<^verbatim>\<open>bytes\<close> are
    lists of 8-bit words, and \<^verbatim>\<open>str.encode()\<close> is UTF-8 on that range (\<open>encode\<close> below).
  \<^item> An exception is a value \<open>Inl e\<close> of a sum type; a \<^verbatim>\<open>try ... except Exception\<close> of
    the source is a case distinction on it.
  \<^item> The libraries the service calls (PDFiD, the PDF parser, the pattern matcher, SHA-256,
    the file size) are not part of the source file; they are the fields of the record
    \<open>env\<close>, and every theorem holds for whatever they return.
  \<^item> A Python \<^verbatim>\<open>set\<close> that the source only iterates over (\<^verbatim>\<open>triage_keywords\<close>, the
    returned \<^verbatim>\<open>obj_files\<close>) is iterated in an order that is a parameter of the model.
\<close>

subsection \<open>Python values and string primitives\<close>

datatype py_error = IndexError | KeyError | ValueError | IOError | NonRecoverableError

type_synonym bytes = "8 word list"

text \<open>\<^verbatim>\<open>s.startswith(pre)\<close>.\<close>

fun startswith :: "'a list \<Rightarrow> 'a list \<Rightarrow> bool" where
  "startswith s [] = True"
| "startswith [] (p # ps) = False"
| "startswith (c # s) (p # ps) = (c = p \<and> startswith s ps)"

text \<open>
  \<open>find_sub sep s\<close> cuts \<open>s\<close> at the first occurrence of \<open>sep\<close>: the text before it and
  the text after it (\<^verbatim>\<open>str.partition\<close> without the separator), \<open>None\<close> if there is none.
\<close>

fun find_sub :: "'a list \<Rightarrow> 'a list \<Rightarrow> ('a list \<times> 'a list) option" where
  "find_sub sep [] = (if sep = [] then Some ([], []) else None)"
| "find_sub sep (c # s) =
     (if startswith (c # s) sep then Some ([], drop (length sep) (c # s))
      else (case find_sub sep s of None \<Rightarrow> None | Some (a, b) \<Rightarrow> Some (c # a, b)))"

text \<open>\<^verbatim>\<open>sub in s\<close>.\<close>

definition contains :: "'a list \<Rightarrow> 'a list \<Rightarrow> bool" where
  "contains s sub = (find_sub sub s \<noteq> None)"

text \<open>
  \<^verbatim>\<open>s.split(sep, n)\<close> for a non-empty separator: at most \<open>n\<close> cuts, so at most \<open>n + 1\<close>
  fields. \<^verbatim>\<open>s.split(sep)\<close> cuts everywhere; a string has fewer occurrences of a non-empty
  separator than it has characters plus one. An empty separator raises ValueError.
\<close>

fun splitn :: "'a list \<Rightarrow> nat \<Rightarrow> 'a list \<Rightarrow> 'a list list" where
  "splitn sep 0 s = [s]"
| "splitn sep (Suc n) s =
     (case find_sub sep s of None \<Rightarrow> [s] | Some (a, b) \<Rightarrow> a # splitn sep n b)"

definition split_max :: "'a list \<Rightarrow> nat \<Rightarrow> 'a list \<Rightarrow> py_error + 'a list list" where
  "split_max sep n s = (if sep = [] then Inl ValueError else Inr (splitn sep n s))"

definition split_all :: "'a list \<Rightarrow> 'a list \<Rightarrow> 'a list list" where
  "split_all sep s = splitn sep (length s) s"

text \<open>\<^verbatim>\<open>xs[i]\<close> for \<open>i \<ge> 0\<close>: IndexError out of range.\<close>

definition item :: "'a list \<Rightarrow> nat \<Rightarrow> py_error + 'a" where
  "item xs i = (if i < length xs then Inr (xs ! i) else Inl IndexError)"

text \<open>
  \<^verbatim>\<open>s.replace(old, new)\<close>: every occurrence, left to right, not overlapping. With an empty
  \<open>old\<close> Python inserts \<open>new\<close> before every character and at the end.
\<close>

fun replace :: "'a list \<Rightarrow> 'a list \<Rightarrow> 'a list \<Rightarrow> 'a list" where
  "replace old new [] = (if old = [] then new else [])"
| "replace old new (c # s) =
     (if old = [] then new @ c # replace old new s
      else if startswith (c # s) old then new @ replace old new (drop (length old - 1) s)
      else c # replace old new s)"

text \<open>\<^verbatim>\<open>s.replace(old, new, 1)\<close>: the first occurrence only.\<close>

definition replace1 :: "'a list \<Rightarrow> 'a list \<Rightarrow> 'a list \<Rightarrow> 'a list" where
  "replace1 old new s = (case find_sub old s of None \<Rightarrow> s | Some (a, b) \<Rightarrow> a @ new @ b)"

text \<open>
  \<^verbatim>\<open>str.isspace\<close> on one code point below U+0100: TAB..CR, FS..US, space, NEL and the
  no-break space. \<^verbatim>\<open>s.strip()\<close> removes such characters at both ends.
\<close>

definition isspace :: "char \<Rightarrow> bool" where
  "isspace c = (let n = (of_char c :: nat) in
     (9 \<le> n \<and> n \<le> 13) \<or> (28 \<le> n \<and> n \<le> 32) \<or> n = 133 \<or> n = 160)"

definition strip :: "string \<Rightarrow> string" where
  "strip s = rev (dropWhile isspace (rev (dropWhile isspace s)))"

text \<open>\<^verbatim>\<open>s.encode()\<close>: UTF-8, one byte below U+0080 and two bytes from there to U+00FF.\<close>

definition encode_char :: "char \<Rightarrow> bytes" where
  "encode_char c = (let w = (of_char c :: 8 word) in
     if w < 128 then [w] else [192 OR drop_bit 6 w, 128 OR (w AND 63)])"

definition encode :: "string \<Rightarrow> bytes" where
  "encode s = concat (map encode_char s)"

subsection \<open>Regular expressions\<close>

text \<open>
  The patterns the source hands to Python's \<^verbatim>\<open>re\<close> module are written as values of \<open>rx\<close>
  and run by a backtracking matcher. \<open>rxm r s\<close> lists what is left of \<open>s\<close> after each way
  of matching \<open>r\<close> at its start, in the order in which \<^verbatim>\<open>re\<close> tries them (left alternative
  first, repetitions greedy), so the head of the list is the match \<^verbatim>\<open>re.match\<close> reports.
  An iteration of \<open>Star\<close> that consumes nothing is not repeated; no starred pattern of the
  source can match the empty string.
\<close>

datatype 'a rx =
    Cls "'a \<Rightarrow> bool"
  | Eps
  | Eol
  | Seq "'a rx" "'a rx"
  | Alt "'a rx" "'a rx"
  | Star "'a rx"
  | Rep "'a rx" nat nat
  | NLook "'a rx"

primrec rsize :: "'a rx \<Rightarrow> nat" where
  "rsize (Cls P) = 1"
| "rsize Eps = 1"
| "rsize Eol = 1"
| "rsize (Seq a b) = Suc (rsize a + rsize b)"
| "rsize (Alt a b) = Suc (rsize a + rsize b)"
| "rsize (Star r) = Suc (rsize r)"
| "rsize (Rep r m n) = Suc (rsize r + n)"
| "rsize (NLook r) = Suc (rsize r)"

text \<open>
  \<open>Rep r m n\<close> is \<^verbatim>\<open>r{m,n}\<close>, \<open>NLook r\<close> is \<^verbatim>\<open>(?!r)\<close>, and \<open>Eol\<close> is \<^verbatim>\<open>$\<close>: the end of
  the text, or the position before a newline that ends the text.
\<close>

function rxm :: "'a \<Rightarrow> 'a rx \<Rightarrow> 'a list \<Rightarrow> 'a list list" where
  "rxm nl (Cls P) s = (case s of [] \<Rightarrow> [] | c # t \<Rightarrow> if P c then [t] else [])"
| "rxm nl Eps s = [s]"
| "rxm nl Eol s = (if s = [] \<or> s = [nl] then [s] else [])"
| "rxm nl (Seq a b) s = concat (map (rxm nl b) (rxm nl a s))"
| "rxm nl (Alt a b) s = rxm nl a s @ rxm nl b s"
| "rxm nl (Star r) s =
     concat (map (rxm nl (Star r)) (filter (\<lambda>t. length t < length s) (rxm nl r s))) @ [s]"
| "rxm nl (Rep r m 0) s = (if m = 0 then [s] else [])"
| "rxm nl (Rep r m (Suc n)) s =
     concat (map (rxm nl (Rep r (m - 1) n)) (rxm nl r s)) @ (if m = 0 then [s] else [])"
| "rxm nl (NLook r) s = (if rxm nl r s = [] then [s] else [])"
  by pat_completeness auto
termination
  by (relation "inv_image (less_than <*lex*> less_than) (\<lambda>(nl, r, s). (rsize r, length s))")
     auto

text \<open>\<^verbatim>\<open>re.match(r, s)\<close>: the matched prefix (\<^verbatim>\<open>group(0)\<close>), or \<open>None\<close>.\<close>

definition re_match :: "'a \<Rightarrow> 'a rx \<Rightarrow> 'a list \<Rightarrow> 'a list option" where
  "re_match nl r s =
     (case rxm nl r s of [] \<Rightarrow> None | t # _ \<Rightarrow> Some (take (length s - length t) s))"

text \<open>
  \<^verbatim>\<open>re.match(pre (grp) suf, s).group(1)\<close>: the text of the one group of a pattern, on the
  first path by which the whole pattern matches.
\<close>

definition re_match_group :: "'a \<Rightarrow> 'a rx \<Rightarrow> 'a rx \<Rightarrow> 'a rx \<Rightarrow> 'a list \<Rightarrow> 'a list option" where
  "re_match_group nl pre grp suf s =
     (case [(t1, t2). t1 \<leftarrow> rxm nl pre s, t2 \<leftarrow> rxm nl grp t1, rxm nl suf t2 \<noteq> []] of
        [] \<Rightarrow> None
      | (t1, t2) # _ \<Rightarrow> Some (take (length t1 - length t2) t1))"

text \<open>
  \<^verbatim>\<open>re.findall(r, s)\<close> for a pattern without groups: the matches found scanning left to
  right, each search starting where the last match ended. After an empty match the scan
  moves on by one character.
\<close>

function findall :: "'a \<Rightarrow> 'a rx \<Rightarrow> 'a list \<Rightarrow> 'a list list" where
  "findall nl r s =
     (case rxm nl r s of
        [] \<Rightarrow> (case s of [] \<Rightarrow> [] | c # s' \<Rightarrow> findall nl r s')
      | t # _ \<Rightarrow>
          if length t < length s then take (length s - length t) s # findall nl r t
          else [] # (case s of [] \<Rightarrow> [] | c # s' \<Rightarrow> findall nl r s'))"
  by pat_completeness auto
termination
  by (relation "measure (\<lambda>(nl, r, s). length s)") auto

declare findall.simps [simp del]

definition lit :: "'a list \<Rightarrow> 'a rx" where
  "lit s = foldr (\<lambda>c r. Seq (Cls (\<lambda>x. x = c)) r) s Eps"

definition opt :: "'a rx \<Rightarrow> 'a rx" where
  "opt r = Rep r 0 1"

definition plus :: "'a rx \<Rightarrow> 'a rx" where
  "plus r = Seq r (Star r)"

definition seqs :: "'a rx list \<Rightarrow> 'a rx" where
  "seqs rs = foldr Seq rs Eps"

definition one_of :: "'a list \<Rightarrow> 'a rx" where
  "one_of cs = Cls (\<lambda>x. x \<in> set cs)"

definition digit :: "char rx" where
  "digit = Cls (\<lambda>c. CHR ''0'' \<le> c \<and> c \<le> CHR ''9'')"

text \<open>\<^verbatim>\<open>[0-9]* [0-9]* R\<close>: an indirect reference, the pattern of lines 293 and 360.\<close>

definition ref_rx :: "char rx" where
  "ref_rx = seqs [Star digit, lit '' '', Star digit, lit '' R'']"

text \<open>\<^verbatim>\<open>[s]?[ ]?\[([0-9]* [0-9]* R[ \\rn]{0,8})*\]\<close> (line 343).\<close>

definition islist_rx :: "char rx" where
  "islist_rx = seqs [opt (lit ''s''), opt (lit '' ''), lit ''['',
     Star (Seq ref_rx (Rep (one_of [CHR '' '', CHR 0x5C, CHR ''r'', CHR ''n'']) 0 8)),
     lit '']'']"

text \<open>
  \<^verbatim>\<open>[s]?[ \\']{0,3}\[[ ]?([0-9]* [0-9]* R)[ \\rn]{1,8}[/a-zA-Z0-9 ]*[ ]?\]\<close> (line 349), cut
  into the part before the group, the group and the part after it.
\<close>

definition withinst_pre :: "char rx" where
  "withinst_pre = seqs [opt (lit ''s''), Rep (one_of [CHR '' '', CHR 0x5C, CHR 0x27]) 0 3,
     lit ''['', opt (lit '' '')]"

definition withinst_suf :: "char rx" where
  "withinst_suf = seqs [Rep (one_of [CHR '' '', CHR 0x5C, CHR ''r'', CHR ''n'']) 1 8,
     Star (Cls (\<lambda>c. c = CHR ''/'' \<or> (CHR ''a'' \<le> c \<and> c \<le> CHR ''z'') \<or>
                     (CHR ''A'' \<le> c \<and> c \<le> CHR ''Z'') \<or> (CHR ''0'' \<le> c \<and> c \<le> CHR ''9'') \<or>
                     c = CHR '' '')),
     opt (lit '' ''), lit '']'']"

text \<open>
  \<^verbatim>\<open>re.findall(pre (grp), s)\<close> for a pattern whose one group is its last part: the text of
  the group in every match, each search starting where the last match ended.
\<close>

function findall_group :: "'a \<Rightarrow> 'a rx \<Rightarrow> 'a rx \<Rightarrow> 'a list \<Rightarrow> 'a list list" where
  "findall_group nl pre grp s =
     (case [(t1, t2). t1 \<leftarrow> rxm nl pre s, t2 \<leftarrow> rxm nl grp t1] of
        [] \<Rightarrow> (case s of [] \<Rightarrow> [] | c # s' \<Rightarrow> findall_group nl pre grp s')
      | (t1, t2) # _ \<Rightarrow>
          if length t2 < length s
          then take (length t1 - length t2) t1 # findall_group nl pre grp t2
          else take (length t1 - length t2) t1 #
               (case s of [] \<Rightarrow> [] | c # s' \<Rightarrow> findall_group nl pre grp s'))"
  by pat_completeness auto
termination
  by (relation "measure (\<lambda>(nl, pre, grp, s). length s)") auto

declare findall_group.simps [simp del]

subsection \<open>Bytes, numbers and paths\<close>

text \<open>A bytes literal \<^verbatim>\<open>b"..."\<close>, and \<^verbatim>\<open>str(n)\<close> for a natural number.\<close>

definition b :: "string \<Rightarrow> bytes" where
  "b s = map of_char s"

definition digit_char :: "nat \<Rightarrow> char" where
  "digit_char d = char_of (48 + d)"

function str_nat :: "nat \<Rightarrow> string" where
  "str_nat n = (if n < 10 then [digit_char n] else str_nat (n div 10) @ [digit_char (n mod 10)])"
  by pat_completeness auto
termination
  by (relation "measure id") auto

declare str_nat.simps [simp del]

text \<open>\<^verbatim>\<open>os.path.join(a, p)\<close> and \<^verbatim>\<open>os.path.basename(p)\<close> on POSIX paths.\<close>

definition path_join :: "string \<Rightarrow> string \<Rightarrow> string" where
  "path_join a p =
     (if startswith p ''/'' then p
      else if a = [] \<or> last a = CHR ''/'' then a @ p
      else a @ ''/'' @ p)"

definition basename :: "string \<Rightarrow> string" where
  "basename p = last (split_all ''/'' p)"

text \<open>\<^verbatim>\<open>s.endswith(suf)\<close>, and \<^verbatim>\<open>b"".join(s.rsplit(sep, 1))\<close>: \<open>s\<close> without the last \<open>sep\<close>.\<close>

definition endswith :: "'a list \<Rightarrow> 'a list \<Rightarrow> bool" where
  "endswith s suf = startswith (rev s) (rev suf)"

definition drop_last_sep :: "'a list \<Rightarrow> 'a list \<Rightarrow> 'a list" where
  "drop_last_sep sep s =
     (case find_sub (rev sep) (rev s) of None \<Rightarrow> s | Some (a, c) \<Rightarrow> rev c @ rev a)"

subsection \<open>The libraries behind the service\<close>

text \<open>
  The options dictionary handed to \<^verbatim>\<open>pdf_parser.PDFParserMain\<close>: one field for each key the
  source sets, absent keys at their defaults in \<open>no_options\<close>. The key \<^verbatim>\<open>object\<close> holds one
  object number or a set of them.
\<close>

datatype obj_arg = Obj string | Objs "string set"

record pp_options =
  o_stats :: bool
  o_search :: "string option"
  o_object :: "obj_arg option"
  o_get_object_detail :: bool
  o_verbose :: bool
  o_nocanonicalizedoutput :: bool
  o_get_malform :: bool
  o_elements :: "string option"
  o_type :: "string option"
  o_filter :: bool
  o_dump :: "string option"
  o_raw :: bool
  o_max_objstm :: "nat option"

definition no_options :: pp_options where
  "no_options = \<lparr>o_stats = False, o_search = None, o_object = None,
     o_get_object_detail = False, o_verbose = False, o_nocanonicalizedoutput = False,
     o_get_malform = False, o_elements = None, o_type = None, o_filter = False,
     o_dump = None, o_raw = False, o_max_objstm = None\<rparr>"

text \<open>
  The dictionary the parser returns: a key that is absent is \<open>None\<close>. \<^verbatim>\<open>files\<close> maps a
  category to the paths of the files the parser wrote. A dictionary is true in a condition
  when it has a key.
\<close>

record pp_result =
  r_parts :: "string list option"
  r_files :: "(string \<times> string list) list option"
  r_obj_details :: "string option"
  r_version :: "string list option"
  r_stats :: "string list option"

definition truthy :: "pp_result \<Rightarrow> bool" where
  "truthy r = (r_parts r \<noteq> None \<or> r_files r \<noteq> None \<or> r_obj_details r \<noteq> None \<or>
               r_version r \<noteq> None \<or> r_stats r \<noteq> None)"

text \<open>
  What \<^verbatim>\<open>pdfid.PDFiDMain\<close> returns: the \<^verbatim>\<open>Flags\<close> rows (name, count and, in a row of three,
  the hex-encoded count) and the \<^verbatim>\<open>Plugin\<close> rows (name, heuristic number, text). The keys
  \<^verbatim>\<open>PDFID\<close>, \<^verbatim>\<open>Properties\<close> and \<^verbatim>\<open>Entropy\<close> only feed report lines and are left out.
\<close>

record pdfid_result =
  d_flags :: "string list list option"
  d_plugin :: "(string \<times> int \<times> string) list option"

text \<open>A value of the mapping \<^verbatim>\<open>PatternMatch.ioc_match\<close> returns: a string or a list.\<close>

datatype ioc_val = IocStr string | IocList "string list"

text \<open>
  The environment of one run. A library call that raises returns \<open>None\<close>. \<open>read_file\<close>
  is the content of a file the parser has written (\<open>None\<close>: it cannot be opened),
  \<open>open_wb path\<close> tells whether \<^verbatim>\<open>open(path, 'wb')\<close> succeeds,
  \<open>iter_order\<close> the order in which Python iterates a set of strings, and
  \<open>re_sub_pattern pat s\<close> is \<^verbatim>\<open>re.sub(pat, "", s, 1)\<close> for a pattern built from a keyword
  that has regular-expression metacharacters (\<open>None\<close>: the pattern does not compile).
\<close>

record env =
  PDFParserMain :: "string \<Rightarrow> string \<Rightarrow> pp_options \<Rightarrow> (pp_result \<times> string set) option"
  PDFiDMain :: "string \<Rightarrow> string list \<Rightarrow> string list \<Rightarrow> bool \<Rightarrow>
                (pdfid_result \<times> string list) option"
  sha256_hexdigest :: "bytes \<Rightarrow> string"
  ioc_match :: "bytes \<Rightarrow> (string \<times> ioc_val) list"
  getsize :: "string \<Rightarrow> nat"
  read_file :: "string \<Rightarrow> bytes option"
  open_wb :: "string \<Rightarrow> bool"
  iter_order :: "string set \<Rightarrow> string list"
  re_sub_pattern :: "string \<Rightarrow> string \<Rightarrow> string option"
  working_directory :: string
  cfg_MAX_PDF_SIZE :: "int option"
  cfg_ADDITIONAL_KEYS :: "string list option"
  cfg_HEURISTICS :: "string list option"

text \<open>
  The effects of the service on its surroundings: the files it writes, in order, and the
  calls of \<^verbatim>\<open>request.add_extracted\<close> (path, name, description).
\<close>

record world =
  written :: "(string \<times> bytes) list"
  added :: "(string \<times> string \<times> string) list"

definition world0 :: world where
  "world0 = \<lparr>written = [], added = []\<rparr>"

text \<open>The value a call returns, without the effects, and the effects alone.\<close>

definition returned :: "py_error + ('a \<times> world) \<Rightarrow> py_error + 'a" where
  "returned r = (case r of Inl e \<Rightarrow> Inl e | Inr (v, w) \<Rightarrow> Inr v)"

definition effects :: "py_error + ('a \<times> world) \<Rightarrow> py_error + world" where
  "effects r = (case r of Inl e \<Rightarrow> Inl e | Inr (v, w) \<Rightarrow> Inr w)"

text \<open>
  \<^verbatim>\<open>get_pdf_parser\<close> (lines 40-58): an exception of the parser is logged and turned into
  the result \<^verbatim>\<open>None\<close> with an empty error list.
\<close>

definition get_pdf_parser ::
  "env \<Rightarrow> string \<Rightarrow> string \<Rightarrow> pp_options \<Rightarrow> pp_result option \<times> string set" where
  "get_pdf_parser E path working_dir options =
     (case PDFParserMain E path working_dir options of
        None \<Rightarrow> (None, {})
      | Some (res, errors) \<Rightarrow> (Some res, errors))"

text \<open>\<^verbatim>\<open>p.split("\n", 1)[0].split(" ")[1]\<close>: the object number on the first line of a part.\<close>

definition objnum_of :: "string \<Rightarrow> py_error + string" where
  "objnum_of p = item (split_all '' '' (hd (splitn [CHR 0x0A] 1 p))) 1"

subsection \<open>Object streams: \<^verbatim>\<open>write_objstm\<close> (lines 608-672)\<close>

definition header :: bytes where
  "header = b ''%PDF-1.6'' @ [10] @ b ''%Fake header created by AL PDFID service.'' @ [10]"

definition trailer :: bytes where
  "trailer = b ''%%EOF'' @ [10]"

definition obj_footer :: bytes where
  "obj_footer = [13] @ b ''endobj'' @ [13]"

text \<open>The byte patterns of lines 647-664. \<open>dot\<close> is \<^verbatim>\<open>.\<close>, any byte but a newline.\<close>

definition dot :: "8 word rx" where
  "dot = Cls (\<lambda>c. c \<noteq> 10)"

definition any_byte :: "8 word rx" where
  "any_byte = Cls (\<lambda>c. True)"

definition starts_dict_rx :: "8 word rx" where
  "starts_dict_rx = Seq (lit (b ''<<'')) (Star dot)"

definition extra_rx :: "8 word rx" where
  "extra_rx = Star (Cls (\<lambda>c. c \<noteq> of_char CHR ''<''))"

definition label_rx :: "8 word rx" where
  "label_rx = Alt (seqs [lit (b ''<<''), Star dot, lit (b ''>>''), one_of [10, 13]])
                  (seqs [lit (b ''<<''), Star dot, lit (b ''>>''), Eol])"

definition stream_rx :: "8 word rx" where
  "stream_rx = Seq (lit (b ''>>''))
     (plus (seqs [NLook (lit (b ''stream'')),
                  NLook (Seq (one_of [13, 10]) (lit (b ''endobj''))),
                  Cls (\<lambda>c. c \<noteq> of_char CHR ''<'')]))"

definition lab_ste_pre :: "8 word rx" where
  "lab_ste_pre = Alt (seqs [NLook (lit (b ''obj'')), any_byte, any_byte, any_byte])
                     (lit (b ''endobj''))"

definition lab_ste_grp :: "8 word rx" where
  "lab_ste_grp = seqs [one_of [13, 10], lit (b ''<<''),
                       plus (Seq (NLook (lit (b ''endobj''))) any_byte)]"

text \<open>Lines 646-649: content before the first object is fenced off as a comment line.\<close>

definition fence_extra :: "bytes \<Rightarrow> bytes" where
  "fence_extra stream =
     (if re_match 10 starts_dict_rx stream = None
      then (case re_match 10 extra_rx stream of
              None \<Rightarrow> stream
            | Some extra_content \<Rightarrow>
                replace extra_content (b ''%'' @ extra_content @ [10]) stream)
      else stream)"

text \<open>Lines 651-655: every label found gets an object header and footer.\<close>

fun wrap_labels :: "bytes list \<Rightarrow> bytes \<Rightarrow> nat \<Rightarrow> bytes \<times> nat" where
  "wrap_labels [] stream obj_idx = (stream, obj_idx)"
| "wrap_labels (lab # labs) stream obj_idx =
     wrap_labels labs
       (replace lab (b (str_nat obj_idx) @ b '' 0 obj'' @ [13] @ drop_last_sep [10] lab @ obj_footer)
          stream)
       (obj_idx + 1)"

text \<open>Lines 656-662: every stream body found gets stream markers.\<close>

fun wrap_streams :: "bytes list \<Rightarrow> bytes \<Rightarrow> bytes" where
  "wrap_streams [] stream = stream"
| "wrap_streams (ste # stes) stream =
     (if endswith ste (b ''>>'') then wrap_streams stes stream
      else wrap_streams stes
             (replace ste (b ''>>stream'' @ [10] @ replace1 (b ''>>'') [] ste @ [10] @
                           b ''endstream'' @ [13] @ b ''endobj'' @ [13]) stream))"

text \<open>Lines 663-668: every label with a stream attached gets an object header.\<close>

fun wrap_lab_stes :: "bytes list \<Rightarrow> bytes \<Rightarrow> nat \<Rightarrow> bytes \<times> nat" where
  "wrap_lab_stes [] stream obj_idx = (stream, obj_idx)"
| "wrap_lab_stes (lab_ste # rest) stream obj_idx =
     wrap_lab_stes rest
       (replace lab_ste ([13] @ b (str_nat obj_idx) @ b '' 0 obj'' @ [13] @ drop 2 lab_ste) stream)
       (obj_idx + 1)"

text \<open>The bytes written back to the file (line 670).\<close>

definition mock_pdf :: "bytes \<Rightarrow> bytes" where
  "mock_pdf stream0 =
     (let stream1 = fence_extra stream0;
          (stream2, obj_idx) = wrap_labels (findall 10 label_rx stream1) stream1 1;
          stream3 = wrap_streams (findall 10 stream_rx stream2) stream2;
          (stream4, obj_idx') =
             wrap_lab_stes (findall_group 10 lab_ste_pre lab_ste_grp stream3) stream3 obj_idx
      in header @ stream4 @ trailer)"

text \<open>Lines 635-637: is some part marked as containing a stream?\<close>

fun stream_present_loop :: "string list \<Rightarrow> bool \<Rightarrow> py_error + bool" where
  "stream_present_loop [] stream_present = Inr stream_present"
| "stream_present_loop (sub_p # ps) stream_present =
     (case item (splitn [CHR 0x0A] 4 sub_p) 3 of
        Inl e \<Rightarrow> Inl e
      | Inr line \<Rightarrow>
          stream_present_loop ps (if line = ''Contains stream'' then True else stream_present))"

text \<open>
  Lines 641-670: the loop over the \<^verbatim>\<open>files\<close> dictionary. The first file of the category
  \<^verbatim>\<open>embedded\<close> is opened, rewritten and becomes the result.
\<close>

fun files_loop ::
  "env \<Rightarrow> (string \<times> string list) list \<Rightarrow> string option \<Rightarrow> world \<Rightarrow>
   py_error + (string option \<times> world)" where
  "files_loop E [] objstm_file w = Inr (objstm_file, w)"
| "files_loop E ((fi, l) # rest) objstm_file w =
     (if fi = ''embedded'' \<and> 0 < length l
      then (case read_file E (hd l) of
              None \<Rightarrow> Inl IOError
            | Some stream \<Rightarrow>
                files_loop E rest (Some (hd l))
                  (w\<lparr>written := written w @ [(hd l, mock_pdf stream)]\<rparr>))
      else files_loop E rest objstm_file w)"

text \<open>The options of line 626.\<close>

definition options_dump :: "string \<Rightarrow> string \<Rightarrow> pp_options" where
  "options_dump objstm objstm_path =
     no_options\<lparr>o_object := Some (Obj objstm), o_dump := Some objstm_path,
                 o_filter := True, o_raw := True\<rparr>"

definition write_objstm ::
  "env \<Rightarrow> string \<Rightarrow> string \<Rightarrow> string \<Rightarrow> string \<Rightarrow> world \<Rightarrow>
   py_error + (string option \<times> world)" where
  "write_objstm E path working_dir objstm objstm_path w =
     (case get_pdf_parser E path working_dir (options_dump objstm objstm_path) of
        (None, err) \<Rightarrow> Inr (None, w)
      | (Some sub, err) \<Rightarrow>
          if \<not> truthy sub then Inr (None, w)
          else (case r_parts sub of
                  None \<Rightarrow> Inl KeyError
                | Some ps \<Rightarrow>
                   (case stream_present_loop ps False of
                      Inl e \<Rightarrow> Inl e
                    | Inr stream_present \<Rightarrow>
                        if stream_present
                        then (case r_files sub of
                                None \<Rightarrow> Inr (None, w)
                              | Some files \<Rightarrow>
                                  if files = [] then Inr (None, w)
                                  else files_loop E files None w)
                        else Inr (None, w))))"

subsection \<open>Object streams: \<^verbatim>\<open>analyze_objstm\<close> (lines 674-720)\<close>

text \<open>
  The variables of the loop. \<open>reconstructed\<close> is not a variable of the source: it lists,
  in order, the container object number and the file of every \<^verbatim>\<open>write_objstm\<close> call that
  returned a file.
\<close>

record objstm_state =
  idx :: nat
  objstm_extracted :: "string set"
  obj_files :: "string set"
  reconstructed :: "(string \<times> string) list"

definition objstm_state0 :: objstm_state where
  "objstm_state0 = \<lparr>idx = 0, objstm_extracted = {}, obj_files = {}, reconstructed = []\<rparr>"

text \<open>The options of line 694: the cap handed to the parser is 100 in deep scan, else 1.\<close>

definition options_objstm :: "bool \<Rightarrow> pp_options" where
  "options_objstm deep_scan =
     no_options\<lparr>o_elements := Some ''i'', o_type := Some ''/ObjStm'',
                 o_max_objstm := Some (if deep_scan then 100 else 1)\<rparr>"

fun objstm_loop ::
  "env \<Rightarrow> string \<Rightarrow> string \<Rightarrow> string list \<Rightarrow> objstm_state \<Rightarrow> world \<Rightarrow>
   py_error + (objstm_state \<times> world)" where
  "objstm_loop E path working_dir [] st w = Inr (st, w)"
| "objstm_loop E path working_dir (p # ps) st w =
     (if contains p ''Type: /ObjStm''
      then (case objnum_of p of
              Inl e \<Rightarrow> Inl e
            | Inr getobj \<Rightarrow>
                if getobj \<in> objstm_extracted st then objstm_loop E path working_dir ps st w
                else
                  (let dump_file = path_join (working_directory E)
                                     (''objstm_'' @ getobj @ ''_'' @ str_nat (idx st));
                       st1 = st\<lparr>idx := idx st + 1\<rparr>
                   in case write_objstm E path working_dir getobj dump_file w of
                        Inl e \<Rightarrow> Inl e
                      | Inr (obj_file, w') \<Rightarrow>
                          (case obj_file of
                             None \<Rightarrow> objstm_loop E path working_dir ps st1 w'
                           | Some f \<Rightarrow>
                               if f = [] then objstm_loop E path working_dir ps st1 w'
                               else objstm_loop E path working_dir ps
                                      (st1\<lparr>objstm_extracted := insert getobj (objstm_extracted st1),
                                            obj_files := insert f (obj_files st1),
                                            reconstructed := reconstructed st1 @ [(getobj, f)]\<rparr>)
                                      w')))
      else objstm_loop E path working_dir ps st w)"

definition analyze_objstm_run ::
  "env \<Rightarrow> string \<Rightarrow> string \<Rightarrow> bool \<Rightarrow> world \<Rightarrow> py_error + (objstm_state \<times> world)" where
  "analyze_objstm_run E path working_dir deep_scan w =
     (case get_pdf_parser E path working_dir (options_objstm deep_scan) of
        (None, errors) \<Rightarrow> Inr (objstm_state0, w)
      | (Some pdf_parser_result, errors) \<Rightarrow>
          (case r_parts pdf_parser_result of
             None \<Rightarrow> Inr (objstm_state0, w)
           | Some parts \<Rightarrow> objstm_loop E path working_dir (sort parts) objstm_state0 w))"

text \<open>\<^verbatim>\<open>analyze_objstm\<close> returns the set \<^verbatim>\<open>obj_files\<close>.\<close>

definition analyze_objstm ::
  "env \<Rightarrow> string \<Rightarrow> string \<Rightarrow> bool \<Rightarrow> world \<Rightarrow> py_error + (string set \<times> world)" where
  "analyze_objstm E path working_dir deep_scan w =
     (case analyze_objstm_run E path working_dir deep_scan w of
        Inl e \<Rightarrow> Inl e
      | Inr (st, w') \<Rightarrow> Inr (obj_files st, w'))"

subsection \<open>Carved content: lines 430-487 of \<^verbatim>\<open>analyze_pdf\<close>\<close>

text \<open>
  \<^verbatim>\<open>carved_content\<close> maps an object number to the list of its one-entry dictionaries
  \<^verbatim>\<open>{keyword: content}\<close>: an association list with one entry per object number, each with
  its (keyword, content) pairs in the order they were appended (lines 394-399, 422-425).
\<close>

type_synonym carved = "(string \<times> (string \<times> string) list) list"

fun carve :: "string \<Rightarrow> string \<Rightarrow> string \<Rightarrow> carved \<Rightarrow> carved" where
  "carve objnum keyword c [] = [(objnum, [(keyword, c)])]"
| "carve objnum keyword c ((k, l) # rest) =
     (if k = objnum then (k, l @ [(keyword, c)]) # rest
      else (k, l) # carve objnum keyword c rest)"

text \<open>
  A result subsection, as far as the source fills it: title, heuristic, body lines, tags.
  A tag value is a string or, on line 465, bytes. The tags of one subsection are a set:
  line 467 iterates a Python set.
\<close>

datatype tag_value = TagStr string | TagBytes bytes

record result_section =
  title_text :: string
  heuristic :: "nat option"
  body_lines :: "string list"
  tags :: "(string \<times> tag_value) set"

text \<open>
  The variables of the loop over the carved content: the digests of the artifacts written
  in this pass, the subsections added to the section \<^verbatim>\<open>Content of Interest\<close>, and the flag
  that makes the section part of the report.
\<close>

record carve_state =
  carved_extracted_shas :: "string set"
  carres :: "result_section list"
  show_content_of_interest :: bool

text \<open>Lines 462-469: the tags of one match type.\<close>

definition ioc_tags :: "string \<times> ioc_val \<Rightarrow> (string \<times> tag_value) set" where
  "ioc_tags tv =
     (case tv of
        (ty, IocStr s) \<Rightarrow> if s = [] then {(ty, TagBytes [])}
                           else set (map (\<lambda>c. (ty, TagStr [c])) s)
      | (ty, IocList vs) \<Rightarrow> set (map (\<lambda>v. (ty, TagStr v)) vs))"

text \<open>
  Lines 447-484, the body of the loop for the object number \<open>k\<close> and one pair
  \<open>(keyw, con)\<close>. The test of line 452 is on \<^verbatim>\<open>len(con)\<close>, the number of code points.
  The \<^verbatim>\<open>open\<close> of line 480 is outside any \<^verbatim>\<open>try\<close>: if it fails, the exception leaves
  \<^verbatim>\<open>analyze_pdf\<close>.
\<close>

definition carve_entry ::
  "env \<Rightarrow> string \<times> string \<times> string \<Rightarrow> carve_state \<times> world \<Rightarrow>
   py_error + (carve_state \<times> world)" where
  "carve_entry E entry sw =
     (case (entry, sw) of ((k, keyw, con), (cs, w)) \<Rightarrow>
       (let subres = \<lparr>title_text = ''Object '' @ k @ '': Hits for Keyword '' @ [CHR 0x27] @ keyw @
                                     [CHR 0x27] @ '':'',
                       heuristic = Some 8, body_lines = [], tags = {}\<rparr>;
            con_bytes = encode con
        in if length con < 500
           then (let st_value = ioc_match E con_bytes
                 in if 0 < length st_value
                    then Inr (cs\<lparr>carres := carres cs @
                                    [subres\<lparr>body_lines := [con],
                                             tags := \<Union> (set (map ioc_tags st_value))\<rparr>],
                                 show_content_of_interest := True\<rparr>, w)
                    else Inr (cs, w))
           else (let crv_sha = sha256_hexdigest E con_bytes
                 in if crv_sha \<notin> carved_extracted_shas cs
                    then (let f_name = ''carved_content_obj_'' @ k @ ''_'' @ take 7 crv_sha;
                              crvf = path_join (working_directory E) f_name
                          in if \<not> open_wb E crvf then Inl IOError
                             else Inr
                              (cs\<lparr>carres := carres cs @
                                   [subres\<lparr>body_lines :=
                                      [''Content over 500 bytes it will be extracted for analysis'',
                                       ''Name: '' @ f_name @ '' - SHA256: '' @ crv_sha]\<rparr>],
                                  show_content_of_interest := True,
                                  carved_extracted_shas := insert crv_sha (carved_extracted_shas cs)\<rparr>,
                               w\<lparr>written := written w @ [(crvf, con_bytes)],
                                 added := added w @
                                   [(crvf, basename crvf, ''Extracted content from object '' @ k)]\<rparr>))
                    else Inr (cs, w))))"

text \<open>
  Line 444-446: the entries in the order of the loops, object numbers sorted, and the loop
  itself, which an exception ends.
\<close>

definition carved_entries :: "carved \<Rightarrow> (string \<times> string \<times> string) list" where
  "carved_entries cc =
     concat (map (\<lambda>(k, l). map (\<lambda>(keyw, con). (k, keyw, con)) l) (sort_key fst cc))"

fun carve_all ::
  "env \<Rightarrow> (string \<times> string \<times> string) list \<Rightarrow> carve_state \<times> world \<Rightarrow>
   py_error + (carve_state \<times> world)" where
  "carve_all E [] sw = Inr sw"
| "carve_all E (entry # entries) sw =
     (case carve_entry E entry sw of
        Inl e \<Rightarrow> Inl e
      | Inr sw' \<Rightarrow> carve_all E entries sw')"

subsection \<open>The triage loop: lines 267-428 of \<^verbatim>\<open>analyze_pdf\<close>\<close>

text \<open>
  The variables of the loop: the carved content, the objects to extract, the JBIG2Decode
  objects, the errors collected so far, and \<^verbatim>\<open>errors\<close>, the warnings of the current
  keyword's search. The source calls \<^verbatim>\<open>errors.add\<close> (line 404), so the parser's
  warnings are a set.
\<close>

record triage_state =
  carved_content :: carved
  obj_extract_triage :: "string set"
  jbig_objs :: "string set"
  all_errors :: "string set"
  errors :: "string set"

definition triage_state0 :: triage_state where
  "triage_state0 = \<lparr>carved_content = [], obj_extract_triage = {}, jbig_objs = {},
                      all_errors = {}, errors = {}\<rparr>"

text \<open>
  Line 315, \<^verbatim>\<open>re.sub("/{}[ ]*".format(keyword), "", content, 1)\<close>. The keyword is part of
  the pattern. A keyword of letters, digits and underscores stands for itself: the first
  \<^verbatim>\<open>/keyword\<close> and the spaces after it are removed. Any other keyword is left to
  \<open>re_sub_pattern\<close>.
\<close>

definition plain_char :: "char \<Rightarrow> bool" where
  "plain_char c = ((CHR ''a'' \<le> c \<and> c \<le> CHR ''z'') \<or> (CHR ''A'' \<le> c \<and> c \<le> CHR ''Z'') \<or>
                   (CHR ''0'' \<le> c \<and> c \<le> CHR ''9'') \<or> c = CHR ''_'')"

definition re_sub_keyword :: "env \<Rightarrow> string \<Rightarrow> string \<Rightarrow> string option" where
  "re_sub_keyword E keyword content =
     (if list_all plain_char keyword
      then (case find_sub (''/'' @ keyword) content of
              None \<Rightarrow> Some content
            | Some (before, after) \<Rightarrow> Some (before @ dropWhile (\<lambda>c. c = CHR '' '') after))
      else re_sub_pattern E (''/'' @ keyword @ ''[ ]*'') content)"

text \<open>\<^verbatim>\<open>p.split("\n", 3)[3]\<close>, or \<open>p\<close> itself when that raises (lines 304-311).\<close>

definition fourth_or_all :: "string \<Rightarrow> string" where
  "fourth_or_all p = (case item (splitn [CHR 0x0A] 3 p) 3 of Inl e \<Rightarrow> p | Inr t \<Rightarrow> t)"

text \<open>\<^verbatim>\<open>p.split(keyword, 1)[1]\<close>: ValueError for an empty keyword, IndexError if it is not in \<open>p\<close>.\<close>

definition after_keyword :: "string \<Rightarrow> string \<Rightarrow> py_error + string" where
  "after_keyword keyword p =
     (case split_max keyword 1 p of Inl e \<Rightarrow> Inl e | Inr pieces \<Rightarrow> item pieces 1)"

text \<open>
  \<^verbatim>\<open>line.replace('Referencing:', '').strip().split(", ")\<close>, the reference list of a
  report (lines 319 and 371).
\<close>

definition referencing :: "string \<Rightarrow> string list" where
  "referencing line = split_all '', '' (strip (replace ''Referencing:'' [] line))"

text \<open>
  Lines 284-321: the content after the keyword and the references of a part.
  \<open>None\<close> is the \<^verbatim>\<open>continue\<close> of line 295.
\<close>

definition part_content :: "env \<Rightarrow> string \<Rightarrow> string \<Rightarrow> (string \<times> string list) option" where
  "part_content E keyword p =
     (if startswith p ''trailer:''
      then (if contains p (''/'' @ keyword)
            then (case after_keyword keyword p of
                    Inl e \<Rightarrow> None
                  | Inr t \<Rightarrow>
                      (let content = strip (hd (splitn ''/'' 1 (replace ''>>++>>'' [] t)))
                       in Some (content, findall (CHR 0x0A) ref_rx content)))
            else Some ([], []))
      else if contains p ''Referencing:''
      then (let content0 =
                  (if contains p ''>>++>>''
                   then (case after_keyword keyword p of
                           Inl e \<Rightarrow> fourth_or_all p
                         | Inr t \<Rightarrow> strip (replace ''>>++>>'' [] t))
                   else fourth_or_all p);
                content =
                  (if startswith content0 (''/'' @ keyword)
                   then (case re_sub_keyword E keyword content0 of
                           None \<Rightarrow> content0
                         | Some c \<Rightarrow> c)
                   else content0);
                references =
                  (case item (splitn [CHR 0x0A] 3 p) 2 of
                     Inl e \<Rightarrow> []
                   | Inr line \<Rightarrow> referencing line)
            in Some (content, references))
      else Some ([], []))"

text \<open>
  Lines 334-355: the tokens of the content. Empty content falls back on the references;
  \<open>None\<close> is the \<^verbatim>\<open>continue\<close> of line 339.
\<close>

definition content_list :: "string \<Rightarrow> string list \<Rightarrow> string list option" where
  "content_list content references =
     (if content = []
      then (if 0 < length references then Some references else None)
      else (case re_match (CHR 0x0A) islist_rx content of
              Some g \<Rightarrow>
                Some (split_all '',''
                        (filter (\<lambda>c. c \<noteq> CHR ''['' \<and> c \<noteq> CHR '']'')
                           (replace ''R '' ''R,'' (replace ''s '' [] g))))
            | None \<Rightarrow>
                (case re_match_group (CHR 0x0A) withinst_pre ref_rx withinst_suf content of
                   Some g \<Rightarrow> Some [g]
                 | None \<Rightarrow> Some [content])))"

text \<open>
  Lines 371-401: one report \<open>sub_p\<close> of the object a reference points to. \<open>details\<close> is
  \<^verbatim>\<open>pdf_parser_subresult['obj_details']\<close>, \<open>None\<close> if the key is missing. An exception
  leaves for the handler of line 405.
\<close>

definition sub_part ::
  "string \<Rightarrow> string option \<Rightarrow> string \<Rightarrow> triage_state \<Rightarrow> py_error + triage_state" where
  "sub_part keyword details sub_p st =
     (case item (splitn [CHR 0x0A] 3 sub_p) 2 of
        Inl e \<Rightarrow> Inl e
      | Inr line2 \<Rightarrow>
         (case item (splitn [CHR 0x0A] 2 sub_p) 1 of
            Inl e \<Rightarrow> Inl e
          | Inr line1 \<Rightarrow>
             (let sub_references = referencing line2;
                  ptyp = replace ''/'' [] (strip (replace ''Type:'' [] line1))
              in if contains sub_p ''Contains stream''
                 then (case objnum_of sub_p of
                         Inl e \<Rightarrow> Inr st
                       | Inr objnum \<Rightarrow>
                           Inr (st\<lparr>obj_extract_triage := insert objnum (obj_extract_triage st)\<rparr>))
                 else (case item sub_references 0 of
                         Inl e \<Rightarrow> Inl e
                       | Inr r0 \<Rightarrow>
                           if r0 \<noteq> [] \<and> 1 \<le> length sub_references \<and> ptyp = keyword
                           then Inr (st\<lparr>obj_extract_triage := obj_extract_triage st \<union>
                                          set (map (\<lambda>sr. hd (splitn '' '' 1 sr)) sub_references)\<rparr>)
                           else (case details of
                                   None \<Rightarrow> Inl KeyError
                                 | Some d \<Rightarrow>
                                     if d \<noteq> []
                                     then (case objnum_of sub_p of
                                             Inl e \<Rightarrow> Inr st
                                           | Inr objnum \<Rightarrow>
                                               Inr (st\<lparr>carved_content :=
                                                      carve objnum keyword d (carved_content st)\<rparr>))
                                     else Inr st)))))"

text \<open>
  Line 370: the loop over the reports. It stops at the first exception and returns it
  with the state reached.
\<close>

fun sub_parts_loop ::
  "string \<Rightarrow> string option \<Rightarrow> string list \<Rightarrow> triage_state \<Rightarrow> py_error option \<times> triage_state" where
  "sub_parts_loop keyword details [] st = (None, st)"
| "sub_parts_loop keyword details (sub_p # rest) st =
     (case sub_part keyword details sub_p st of
        Inl e \<Rightarrow> (Some e, st)
      | Inr st' \<Rightarrow> sub_parts_loop keyword details rest st')"

text \<open>The options of line 363.\<close>

definition options_object :: "string \<Rightarrow> pp_options" where
  "options_object ref_obj = no_options\<lparr>o_object := Some (Obj ref_obj), o_get_object_detail := True\<rparr>"

text \<open>
  Lines 361-411, a token that is a reference. The reports of the referenced object are
  classified; if that raises, the object of the part \<open>p\<close> itself is extracted.
\<close>

definition resolve_reference ::
  "env \<Rightarrow> string \<Rightarrow> string \<Rightarrow> string \<Rightarrow> string \<Rightarrow> string \<Rightarrow> triage_state \<Rightarrow> triage_state" where
  "resolve_reference E path working_dir keyword p c st =
     (let ref_obj = hd (splitn '' '' 1 c)
      in case get_pdf_parser E path working_dir (options_object ref_obj) of
           (pdf_parser_subresult, err) \<Rightarrow>
             (case (case pdf_parser_subresult of
                      None \<Rightarrow> (None, st)
                    | Some sub \<Rightarrow>
                        if \<not> truthy sub then (None, st)
                        else (case r_parts sub of
                                None \<Rightarrow> (Some KeyError, st)
                              | Some sub_ps \<Rightarrow>
                                  sub_parts_loop keyword (r_obj_details sub) sub_ps st)) of
                (None, st1) \<Rightarrow> st1\<lparr>errors := errors st1 \<union> err\<rparr>
              | (Some e, st1) \<Rightarrow>
                  (case objnum_of p of
                     Inl e' \<Rightarrow> st1
                   | Inr objnum \<Rightarrow>
                       st1\<lparr>obj_extract_triage := insert objnum (obj_extract_triage st1)\<rparr>)))"

text \<open>
  Lines 413-425, a token that is not a reference: the object of the part is extracted if
  its fourth line is \<^verbatim>\<open>Contains stream\<close>, otherwise the token is carved. The two index
  expressions are outside any \<^verbatim>\<open>try\<close>.
\<close>

definition literal_token ::
  "string \<Rightarrow> string \<Rightarrow> string \<Rightarrow> triage_state \<Rightarrow> py_error + triage_state" where
  "literal_token keyword p c st =
     (if startswith p ''trailer:'' then Inr st
      else (case objnum_of p of
              Inl e \<Rightarrow> Inl e
            | Inr objnum \<Rightarrow>
               (case item (splitn [CHR 0x0A] 4 p) 3 of
                  Inl e \<Rightarrow> Inl e
                | Inr line \<Rightarrow>
                    if line = ''Contains stream''
                    then Inr (st\<lparr>obj_extract_triage := insert objnum (obj_extract_triage st)\<rparr>)
                    else Inr (st\<lparr>carved_content := carve objnum keyword c (carved_content st)\<rparr>))))"

text \<open>Lines 356-425, the body of the loop over the tokens.\<close>

definition triage_token ::
  "env \<Rightarrow> string \<Rightarrow> string \<Rightarrow> string set \<Rightarrow> string \<Rightarrow> string \<Rightarrow> string list \<Rightarrow> string \<Rightarrow>
   triage_state \<Rightarrow> py_error + triage_state" where
  "triage_token E path working_dir triage_keywords keyword p references c st =
     (if ''JS'' \<in> triage_keywords \<and> keyword = ''JavaScript'' \<and> contains (take 5 c) ''/JS''
      then Inr st
      else if c \<in> set references \<or> re_match (CHR 0x0A) ref_rx c \<noteq> None
      then Inr (resolve_reference E path working_dir keyword p c st)
      else literal_token keyword p c st)"

fun tokens_loop ::
  "env \<Rightarrow> string \<Rightarrow> string \<Rightarrow> string set \<Rightarrow> string \<Rightarrow> string \<Rightarrow> string list \<Rightarrow> string list \<Rightarrow>
   triage_state \<Rightarrow> py_error + triage_state" where
  "tokens_loop E path working_dir triage_keywords keyword p references [] st = Inr st"
| "tokens_loop E path working_dir triage_keywords keyword p references (c # cs) st =
     (case triage_token E path working_dir triage_keywords keyword p references c st of
        Inl e \<Rightarrow> Inl e
      | Inr st' \<Rightarrow> tokens_loop E path working_dir triage_keywords keyword p references cs st')"

text \<open>
  Lines 284-425, the body of the loop over the parts of one keyword search, with the
  guard of line 323 for JBIG2Decode objects.
\<close>

definition triage_part ::
  "env \<Rightarrow> string \<Rightarrow> string \<Rightarrow> bool \<Rightarrow> string set \<Rightarrow> string \<Rightarrow> string \<Rightarrow>
   triage_state \<Rightarrow> py_error + triage_state" where
  "triage_part E path working_dir deep_scan triage_keywords keyword p st =
     (case part_content E keyword p of
        None \<Rightarrow> Inr st
      | Some (content, references) \<Rightarrow>
          if keyword = ''JBIG2Decode'' \<and> contains p ''/Filter'' \<and> contains p ''Contains stream''
          then (case objnum_of p of
                  Inl e \<Rightarrow> Inr st
                | Inr objnum \<Rightarrow>
                    Inr (st\<lparr>obj_extract_triage :=
                              (if deep_scan then insert objnum (obj_extract_triage st)
                               else obj_extract_triage st),
                            jbig_objs := insert objnum (jbig_objs st)\<rparr>))
          else (case content_list content references of
                  None \<Rightarrow> Inr st
                | Some cs \<Rightarrow>
                    tokens_loop E path working_dir triage_keywords keyword p references cs st))"

fun parts_loop ::
  "env \<Rightarrow> string \<Rightarrow> string \<Rightarrow> bool \<Rightarrow> string set \<Rightarrow> string \<Rightarrow> string list \<Rightarrow>
   triage_state \<Rightarrow> py_error + triage_state" where
  "parts_loop E path working_dir deep_scan triage_keywords keyword [] st = Inr st"
| "parts_loop E path working_dir deep_scan triage_keywords keyword (p # ps) st =
     (case triage_part E path working_dir deep_scan triage_keywords keyword p st of
        Inl e \<Rightarrow> Inl e
      | Inr st' \<Rightarrow> parts_loop E path working_dir deep_scan triage_keywords keyword ps st')"

text \<open>The options of line 277, and lines 273-428, the body of the loop over the keywords.\<close>

definition options_search :: "string \<Rightarrow> pp_options" where
  "options_search keyword = no_options\<lparr>o_search := Some keyword\<rparr>"

definition triage_keyword ::
  "env \<Rightarrow> string \<Rightarrow> string \<Rightarrow> bool \<Rightarrow> string set \<Rightarrow> string \<Rightarrow>
   triage_state \<Rightarrow> py_error + triage_state" where
  "triage_keyword E path working_dir deep_scan triage_keywords keyword st =
     (if keyword = ''ObjStm'' then Inr st
      else (case get_pdf_parser E path working_dir (options_search keyword) of
              (None, errs) \<Rightarrow> Inr (st\<lparr>errors := errs\<rparr>)
            | (Some pdf_parser_result, errs) \<Rightarrow>
                if \<not> truthy pdf_parser_result then Inr (st\<lparr>errors := errs\<rparr>)
                else (case r_parts pdf_parser_result of
                        None \<Rightarrow> Inl KeyError
                      | Some ps \<Rightarrow>
                         (case parts_loop E path working_dir deep_scan triage_keywords keyword ps
                                 (st\<lparr>errors := errs\<rparr>) of
                            Inl e \<Rightarrow> Inl e
                          | Inr st1 \<Rightarrow> Inr (st1\<lparr>all_errors := all_errors st1 \<union> errors st1\<rparr>)))))"

text \<open>
  Line 272: the loop over \<^verbatim>\<open>triage_keywords\<close>; \<open>kws\<close> is the set in the order in which
  it is iterated.
\<close>

fun triage_loop ::
  "env \<Rightarrow> string \<Rightarrow> string \<Rightarrow> bool \<Rightarrow> string set \<Rightarrow> string list \<Rightarrow>
   triage_state \<Rightarrow> py_error + triage_state" where
  "triage_loop E path working_dir deep_scan triage_keywords [] st = Inr st"
| "triage_loop E path working_dir deep_scan triage_keywords (keyword # kws) st =
     (case triage_keyword E path working_dir deep_scan triage_keywords keyword st of
        Inl e \<Rightarrow> Inl e
      | Inr st' \<Rightarrow> triage_loop E path working_dir deep_scan triage_keywords kws st')"

text \<open>Line 539: the objects handed to the parser for extraction.\<close>

definition obj_to_extract :: "triage_state \<Rightarrow> string set \<Rightarrow> string set" where
  "obj_to_extract st embed_extracted = obj_extract_triage st - embed_extracted - jbig_objs st"

text \<open>
  The state at the start of a pass (line 82 and the sections not yet filled), and the test
  whether a written file has a given SHA-256 digest.
\<close>

definition carve_state0 :: carve_state where
  "carve_state0 = \<lparr>carved_extracted_shas = {}, carres = [], show_content_of_interest = False\<rparr>"

definition digest_is :: "env \<Rightarrow> string \<Rightarrow> string \<times> bytes \<Rightarrow> bool" where
  "digest_is E d f = (sha256_hexdigest E (snd f) = d)"

subsection \<open>PDFiD results: lines 84-238 of \<^verbatim>\<open>analyze_pdf\<close>\<close>

text \<open>
  Of the report that \<^verbatim>\<open>analyze_pdf\<close> builds, the model keeps the section
  \<^verbatim>\<open>Content of Interest\<close>; the other sections (PDFiD results, statistics, lists of
  extracted files) and the heuristics are report lines that no decision reads.
\<close>

text \<open>\<^verbatim>\<open>get_pdfid\<close> (lines 21-38); its exception becomes NonRecoverableError on line 93.\<close>

definition get_pdfid ::
  "env \<Rightarrow> string \<Rightarrow> string list \<Rightarrow> string list \<Rightarrow> bool \<Rightarrow>
   py_error + (pdfid_result \<times> string list)" where
  "get_pdfid E path additional_keywords options deep =
     (case PDFiDMain E path additional_keywords options deep of
        None \<Rightarrow> Inl NonRecoverableError
      | Some r \<Rightarrow> Inr r)"

record pdfid_state =
  triage_keywords :: "string set"
  embed_present :: bool
  objstms :: bool
  run_pdfparse :: bool

text \<open>
  Lines 127-136: the rows of \<^verbatim>\<open>Flags\<close>. A row is read at its first two positions, so a
  shorter row raises IndexError.
\<close>

fun flags_loop :: "string list \<Rightarrow> string list list \<Rightarrow> pdfid_state \<Rightarrow> py_error + pdfid_state" where
  "flags_loop additional_keywords [] s = Inr s"
| "flags_loop additional_keywords (flist # rest) s =
     (case flist of
        name # cnt # others \<Rightarrow>
          flags_loop additional_keywords rest
            (s\<lparr>objstms := (name = ''/ObjStm'' \<or> objstms s),
               triage_keywords :=
                 (if name \<in> set additional_keywords
                  then insert (replace1 ''/'' [] name) (triage_keywords s)
                  else triage_keywords s)\<rparr>)
      | _ \<Rightarrow> Inl IndexError)"

text \<open>\<^verbatim>\<open>s.splitlines()\<close> for code points below U+0100.\<close>

definition linebreak :: "char \<Rightarrow> bool" where
  "linebreak c = (let n = (of_char c :: nat) in
     (10 \<le> n \<and> n \<le> 13) \<or> (28 \<le> n \<and> n \<le> 30) \<or> n = 133)"

fun splitlines_from :: "string \<Rightarrow> string \<Rightarrow> string list" where
  "splitlines_from cur [] = (if cur = [] then [] else [rev cur])"
| "splitlines_from cur [c] = (if linebreak c then [rev cur] else [rev (c # cur)])"
| "splitlines_from cur (c # d # s) =
     (if c = CHR 0x0D \<and> d = CHR 0x0A then rev cur # splitlines_from [] s
      else if linebreak c then rev cur # splitlines_from [] (d # s)
      else splitlines_from (c # cur) (d # s))"

definition splitlines :: "string \<Rightarrow> string list" where
  "splitlines s = splitlines_from [] s"

text \<open>
  Lines 165-216: the chain of tests on one line of the triage plugin's text. The first
  name found in the line gives the keyword.
\<close>

definition triage_table :: "(string \<times> string) list" where
  "triage_table =
     [(''/JavaScript'', ''JavaScript''), (''/JS'', ''JS''), (''/JBIG2Decode'', ''JBIG2Decode''),
      (''/Colors > 2^24'', ''Colors > 2^24''), (''/AA'', ''AA''), (''/Launch'', ''Launch''),
      (''/OpenAction'', ''OpenAction''), (''/GoToE'', ''GoToE''), (''/GoToR'', ''GoToR''),
      (''/Encrypt'', ''Encrypt''), (''/AcroForm'', ''AcroForm''), (''/RichMedia'', ''RichMedia''),
      (''/XFA'', ''XFA''), (''/Annot'', ''Annot''), (''/ObjStm'', ''ObjStm''), (''/URI'', ''URI'')]"

definition line_keyword :: "string \<Rightarrow> string option" where
  "line_keyword line = map_option snd (find (\<lambda>(name, keyword). contains line name) triage_table)"

text \<open>Lines 144-233: the rows of \<^verbatim>\<open>Plugin\<close>.\<close>

fun plugin_loop :: "(string \<times> int \<times> string) list \<Rightarrow> pdfid_state \<Rightarrow> pdfid_state" where
  "plugin_loop [] s = s"
| "plugin_loop ((pl_name, pl_heur, pl_text0) # rest) s =
     (let pl_text = drop 14 pl_text0
      in if pl_text = [] \<or> pl_text = ''None'' then plugin_loop rest s
         else if pl_name = ''EmbeddedFile'' \<or> pl_name = ''Name Obfuscation''
         then plugin_loop rest (if pl_name = ''EmbeddedFile'' then s\<lparr>embed_present := True\<rparr> else s)
         else if pl_name = ''Triage'' \<or> pl_name = ''Suspicious Properties''
         then plugin_loop rest
                (s\<lparr>triage_keywords :=
                     triage_keywords s \<union> set (List.map_filter line_keyword (splitlines pl_text))\<rparr>)
         else plugin_loop rest s)"

text \<open>Lines 84-238: PDFiD is run and its result read. The second component is \<^verbatim>\<open>all_errors\<close>.\<close>

definition pdfid_stage ::
  "env \<Rightarrow> bool \<Rightarrow> string \<Rightarrow> string list \<Rightarrow> string list \<Rightarrow> py_error + (pdfid_state \<times> string set)" where
  "pdfid_stage E deep_scan path heur additional_keywords =
     (case get_pdfid E path additional_keywords heur deep_scan of
        Inl e \<Rightarrow> Inl e
      | Inr (pdfid_result, errs) \<Rightarrow>
         (let s0 = \<lparr>triage_keywords = {}, embed_present = False, objstms = False,
                    run_pdfparse = deep_scan\<rparr>
          in case (case d_flags pdfid_result of
                     None \<Rightarrow> Inr s0
                   | Some flags \<Rightarrow> flags_loop additional_keywords flags s0) of
               Inl e \<Rightarrow> Inl e
             | Inr s1 \<Rightarrow>
                (let plugin = (case d_plugin pdfid_result of None \<Rightarrow> [] | Some rows \<Rightarrow> rows);
                     s2 = s1\<lparr>run_pdfparse :=
                               (run_pdfparse s1 \<or> plugin \<noteq> [] \<or> triage_keywords s1 \<noteq> {})\<rparr>
                 in Inr (plugin_loop plugin s2, set errs))))"

subsection \<open>Statistics, structure and extraction: lines 245-265 and 489-601\<close>

text \<open>Lines 245-265: the statistics query adds its warnings when it has a result.\<close>

definition stats_errors :: "env \<Rightarrow> string \<Rightarrow> string \<Rightarrow> string set" where
  "stats_errors E path working_dir =
     (case get_pdf_parser E path working_dir (no_options\<lparr>o_stats := True\<rparr>) of
        (None, errs) \<Rightarrow> {}
      | (Some res, errs) \<Rightarrow> if truthy res then errs else {})"

text \<open>
  Lines 430-487: the section \<^verbatim>\<open>Content of Interest\<close>. The JBIG2Decode objects are listed
  when there are any (lines 437-441), then the carved content is gone through.
\<close>

definition carve_stage ::
  "env \<Rightarrow> triage_state \<Rightarrow> world \<Rightarrow> py_error + (carve_state \<times> world)" where
  "carve_stage E st w =
     carve_all E (carved_entries (carved_content st))
       (carve_state0\<lparr>show_content_of_interest := (jbig_objs st \<noteq> {})\<rparr>, w)"

text \<open>Lines 492-510: the options of the structure query.\<close>

definition options_elements :: "bool \<Rightarrow> bool \<Rightarrow> pp_options" where
  "options_elements deep_scan embedded =
     (if deep_scan
      then no_options\<lparr>o_verbose := True, o_nocanonicalizedoutput := True, o_get_malform := True\<rparr>
      else if embedded
      then no_options\<lparr>o_verbose := True, o_elements := Some ''ctsi'',
                       o_type := Some ''/EmbeddedFile'', o_get_malform := True\<rparr>
      else no_options\<lparr>o_verbose := True, o_elements := Some ''cst'', o_get_malform := True\<rparr>)"

text \<open>
  The loops over \<^verbatim>\<open>files.items()\<close> (lines 521-527, 553-561, 583-592): every path of one
  category is handed to \<^verbatim>\<open>request.add_extracted\<close>.
\<close>

definition add_extracted_all ::
  "string \<Rightarrow> (string \<Rightarrow> string \<times> string \<times> string) \<Rightarrow> (string \<times> string list) list \<Rightarrow>
   world \<Rightarrow> world" where
  "add_extracted_all category entry files w =
     w\<lparr>added := added w @
          map entry (concat (map snd (filter (\<lambda>(f, l). f = category) files)))\<rparr>"

text \<open>Lines 533-536: the embedded files the structure query reports.\<close>

fun embed_loop :: "string list \<Rightarrow> string set \<Rightarrow> py_error + string set" where
  "embed_loop [] embed_extracted = Inr embed_extracted"
| "embed_loop (p # ps) embed_extracted =
     (if contains p ''Type: /EmbeddedFile''
      then (case objnum_of p of
              Inl e \<Rightarrow> Inl e
            | Inr getobj \<Rightarrow> embed_loop ps (insert getobj embed_extracted))
      else embed_loop ps embed_extracted)"

definition elements_stage ::
  "env \<Rightarrow> string \<Rightarrow> string \<Rightarrow> bool \<Rightarrow> bool \<Rightarrow> world \<Rightarrow> py_error + (string set \<times> world)" where
  "elements_stage E path working_dir deep_scan embedded w =
     (case get_pdf_parser E path working_dir (options_elements deep_scan embedded) of
        (None, errs) \<Rightarrow> Inr ({}, w)
      | (Some res, errs) \<Rightarrow>
          if \<not> truthy res then Inr ({}, w)
          else (let w1 = (case r_files res of
                            None \<Rightarrow> w
                          | Some files \<Rightarrow>
                              add_extracted_all ''malformed''
                                (\<lambda>i. (i, basename i,
                                      ''Extracted malformed content in PDF Parser Analysis.''))
                                files w)
                in case (case r_parts res of
                           None \<Rightarrow> Inr {}
                         | Some parts \<Rightarrow> embed_loop (sort parts) {}) of
                     Inl e \<Rightarrow> Inl e
                   | Inr embed_extracted \<Rightarrow> Inr (embed_extracted, w1)))"

text \<open>
  Lines 538-569: the objects collected by the triage loop are extracted, without the
  embedded files and without the JBIG2Decode objects.
\<close>

definition extract_objects ::
  "env \<Rightarrow> string \<Rightarrow> string \<Rightarrow> triage_state \<Rightarrow> string set \<Rightarrow> world \<times> string set \<Rightarrow>
   world \<times> string set" where
  "extract_objects E path working_dir st embed_extracted we =
     (case we of (w, errs_all) \<Rightarrow>
       if obj_to_extract st embed_extracted \<noteq> {}
       then (case get_pdf_parser E path working_dir
                    (no_options\<lparr>o_filter := True,
                                 o_object := Some (Objs (obj_to_extract st embed_extracted)),
                                 o_dump := Some ''extracted_obj_''\<rparr>) of
               (None, errs) \<Rightarrow> (w, errs_all)
             | (Some res, errs) \<Rightarrow>
                 if \<not> truthy res then (w, errs_all)
                 else ((case r_files res of
                          None \<Rightarrow> w
                        | Some files \<Rightarrow>
                            add_extracted_all ''embedded''
                              (\<lambda>i. (i, basename i,
                                    ''Object '' @ replace ''extracted_obj_'' [] (basename i) @
                                    '' extracted in PDF Parser Analysis.''))
                              files w),
                       errs_all \<union> errs))
       else (w, errs_all))"

text \<open>Lines 571-601: in deep scan the JBIG2Decode objects are extracted on their own.\<close>

definition extract_jbig ::
  "env \<Rightarrow> string \<Rightarrow> string \<Rightarrow> bool \<Rightarrow> triage_state \<Rightarrow> world \<times> string set \<Rightarrow>
   world \<times> string set" where
  "extract_jbig E path working_dir deep_scan st we =
     (case we of (w, errs_all) \<Rightarrow>
       if deep_scan \<and> jbig_objs st \<noteq> {}
       then (case get_pdf_parser E path working_dir
                    (no_options\<lparr>o_object := Some (Objs (jbig_objs st)),
                                 o_dump := Some ''extracted_jb_obj_''\<rparr>) of
               (None, errs) \<Rightarrow> (w, errs_all)
             | (Some res, errs) \<Rightarrow>
                 if \<not> truthy res then (w, errs_all)
                 else ((case r_files res of
                          None \<Rightarrow> w
                        | Some files \<Rightarrow>
                            add_extracted_all ''embedded''
                              (\<lambda>i. (i, basename i,
                                    ''JBIG2DECODE object '' @
                                    replace ''extracted_jb_obj_'' [] (basename i) @
                                    '' extracted in PDF Parser Analysis.''))
                              files w),
                       errs_all \<union> errs))
       else (w, errs_all))"

subsection \<open>\<^verbatim>\<open>analyze_pdf\<close> (lines 61-606) and \<^verbatim>\<open>execute\<close> (lines 722-769)\<close>

text \<open>
  The result section of one document: its title, the JBIG2Decode objects it lists and the
  subsections of \<^verbatim>\<open>Content of Interest\<close>, empty when that section is not shown.
\<close>

record pdf_report =
  res_txt :: string
  jbig_listed :: "string set"
  content_of_interest :: "result_section list"

definition analyze_pdf ::
  "env \<Rightarrow> bool \<Rightarrow> string \<Rightarrow> string \<Rightarrow> string \<Rightarrow> string list \<Rightarrow> string list \<Rightarrow> bool \<Rightarrow> world \<Rightarrow>
   py_error + ((pdf_report \<times> bool \<times> string set) \<times> world)" where
  "analyze_pdf E deep_scan title path working_dir heur additional_keywords get_malform w =
     (case pdfid_stage E deep_scan path heur additional_keywords of
        Inl e \<Rightarrow> Inl e
      | Inr (ps, errs0) \<Rightarrow>
          if \<not> run_pdfparse ps
          then Inr ((\<lparr>res_txt = title, jbig_listed = {}, content_of_interest = []\<rparr>,
                     objstms ps, errs0), w)
          else
           (let errs1 = errs0 \<union> (if get_malform then stats_errors E path working_dir else {})
            in case triage_loop E path working_dir deep_scan (triage_keywords ps)
                      (iter_order E (triage_keywords ps))
                      (triage_state0\<lparr>all_errors := errs1\<rparr>) of
                 Inl e \<Rightarrow> Inl e
               | Inr st \<Rightarrow>
                  (case carve_stage E st w of
                     Inl e \<Rightarrow> Inl e
                   | Inr (cs, w1) \<Rightarrow>
                      (let report = \<lparr>res_txt = title, jbig_listed = jbig_objs st,
                                      content_of_interest =
                                        (if show_content_of_interest cs then carres cs else [])\<rparr>
                       in if get_malform
                          then (case elements_stage E path working_dir deep_scan
                                       (embed_present ps) w1 of
                                  Inl e \<Rightarrow> Inl e
                                | Inr (embed_extracted, w2) \<Rightarrow>
                                   (case extract_jbig E path working_dir deep_scan st
                                           (extract_objects E path working_dir st embed_extracted
                                              (w2, all_errors st)) of
                                      (w3, errs3) \<Rightarrow> Inr ((report, objstms ps, errs3), w3)))
                          else Inr ((report, objstms ps, all_errors st), w1)))))"

text \<open>The sections of the result of \<^verbatim>\<open>execute\<close>.\<close>

datatype result_entry = Document pdf_report | Errors "string set" | TooBig

text \<open>Line 751: the plugins left out for a reconstructed document.\<close>

definition objstm_heur :: "string list \<Rightarrow> string list" where
  "objstm_heur heur =
     filter (\<lambda>x. \<not> contains x ''plugin_suspicious_properties'' \<and>
                 \<not> contains x ''plugin_embeddedfile'' \<and>
                 \<not> contains x ''plugin_nameobfuscation'') heur"

text \<open>Lines 747-758: every reconstructed document is analysed like a document of its own.\<close>

fun objstm_docs ::
  "env \<Rightarrow> bool \<Rightarrow> string \<Rightarrow> string list \<Rightarrow> string list \<Rightarrow> nat \<Rightarrow> string list \<Rightarrow>
   result_entry list \<times> world \<Rightarrow> py_error + (result_entry list \<times> world)" where
  "objstm_docs E deep_scan working_dir heur additional_keywords obj_cnt [] rw = Inr rw"
| "objstm_docs E deep_scan working_dir heur additional_keywords obj_cnt (osf # rest) rw =
     (case rw of (result, w) \<Rightarrow>
       (case item (split_all ''_'' (basename osf)) 1 of
          Inl e \<Rightarrow> Inl e
        | Inr parent_obj \<Rightarrow>
           (case analyze_pdf E deep_scan
                   (''ObjStream Object '' @ str_nat obj_cnt @ '' from Parent Object '' @ parent_obj)
                   osf working_dir (objstm_heur heur) additional_keywords False w of
              Inl e \<Rightarrow> Inl e
            | Inr ((res, contains_objstms, errs), w') \<Rightarrow>
                objstm_docs E deep_scan working_dir (objstm_heur heur) additional_keywords
                  (obj_cnt + 1) rest (result @ [Document res], w'))))"

text \<open>Lines 727-764: the analysis that \<^verbatim>\<open>execute\<close> runs when the file passes the size test.\<close>

definition run_analysis ::
  "env \<Rightarrow> string \<Rightarrow> bool \<Rightarrow> world \<Rightarrow> py_error + (result_entry list \<times> world)" where
  "run_analysis E file_path deep_scan w =
     (let working_dir = working_directory E;
          additional_keywords = (case cfg_ADDITIONAL_KEYS E of None \<Rightarrow> [] | Some ks \<Rightarrow> ks);
          heur = (case cfg_HEURISTICS E of None \<Rightarrow> [] | Some hs \<Rightarrow> hs)
      in case analyze_pdf E deep_scan ''Main Document Results'' file_path working_dir heur
                additional_keywords True w of
           Inl e \<Rightarrow> Inl e
         | Inr ((res, contains_objstms, all_errs), w1) \<Rightarrow>
            (case (if contains_objstms
                   then (case analyze_objstm E file_path working_dir deep_scan w1 of
                           Inl e \<Rightarrow> Inl e
                         | Inr (objstm_files, w2) \<Rightarrow>
                             objstm_docs E deep_scan working_dir heur additional_keywords 1
                               (iter_order E objstm_files) ([Document res], w2))
                   else Inr ([Document res], w1)) of
               Inl e \<Rightarrow> Inl e
             | Inr (result, w3) \<Rightarrow>
                 Inr (if all_errs \<noteq> {} then result @ [Errors all_errs] else result, w3)))"

text \<open>
  \<^verbatim>\<open>execute\<close>: the size test of line 726, with the limit of line 724, decides between the
  analysis and the one section that says the file was skipped.
\<close>

definition max_size :: "env \<Rightarrow> int" where
  "max_size E = (case cfg_MAX_PDF_SIZE E of None \<Rightarrow> 3000000 | Some n \<Rightarrow> n)"

definition execute ::
  "env \<Rightarrow> string \<Rightarrow> bool \<Rightarrow> world \<Rightarrow> py_error + (result_entry list \<times> world)" where
  "execute E file_path deep_scan w =
     (if int (getsize E file_path) < max_size E \<or> deep_scan
      then run_analysis E file_path deep_scan w
      else Inr ([TooBig], w))"

section \<open>Example documents\<close>

text \<open>
  Concrete parser replies on which the theorems below are run. A part has the shape the
  source reads: the object line, the type line, the referencing line, and then either the
  line \<^verbatim>\<open>Contains stream\<close> or the text of the object.
\<close>

definition no_result :: pp_result where
  "no_result = \<lparr>r_parts = None, r_files = None, r_obj_details = None,
                 r_version = None, r_stats = None\<rparr>"

definition part :: "string \<Rightarrow> string \<Rightarrow> string \<Rightarrow> string \<Rightarrow> string" where
  "part n ty refs rest =
     ''obj '' @ n @ '' 0'' @ [CHR 0x0A] @ ''Type: '' @ ty @ [CHR 0x0A] @
     ''Referencing: '' @ refs @ [CHR 0x0A] @ rest"

definition env0 :: env where
  "env0 = \<lparr>PDFParserMain = (\<lambda>path working_dir options. None),
     PDFiDMain = (\<lambda>path keywords plugins deep. None),
     sha256_hexdigest = (\<lambda>bs. []),
     ioc_match = (\<lambda>bs. []),
     getsize = (\<lambda>path. 0),
     read_file = (\<lambda>path. None),
     open_wb = (\<lambda>path. True),
     iter_order = (\<lambda>S. []),
     re_sub_pattern = (\<lambda>pat s. None),
     working_directory = ''/w'',
     cfg_MAX_PDF_SIZE = None, cfg_ADDITIONAL_KEYS = None, cfg_HEURISTICS = None\<rparr>"

text \<open>
  Documents with object streams, each with a stream. The parser lists the containers
  \<open>ns\<close>; asked for one object, it dumps it to the path it was given. The first document
  has the containers 5 and 7; for the second the parser lists container 5 twice.
\<close>

definition objstm_parser ::
  "string list \<Rightarrow> string \<Rightarrow> string \<Rightarrow> pp_options \<Rightarrow> (pp_result \<times> string set) option" where
  "objstm_parser ns path working_dir options =
     (case o_object options of
        None \<Rightarrow>
          Some (no_result\<lparr>r_parts :=
                  Some (map (\<lambda>n. part n ''/ObjStm'' [] ''Contains stream'') ns)\<rparr>, {})
      | Some (Obj n) \<Rightarrow>
          Some (no_result\<lparr>r_parts := Some [part n ''/ObjStm'' [] ''Contains stream''],
                  r_files := Some [(''embedded'',
                                    (case o_dump options of None \<Rightarrow> [] | Some d \<Rightarrow> [d]))]\<rparr>, {})
      | Some (Objs objs) \<Rightarrow> None)"


definition repeated_objstm_env :: env where
  "repeated_objstm_env = env0\<lparr>PDFParserMain := objstm_parser [''5'', ''7'', ''5''],
                               read_file := (\<lambda>path. Some (b ''<<>>''))\<rparr>"

text \<open>
  A container, object 5, whose report ends after the referencing line: it has three lines
  and none of them says \<^verbatim>\<open>Contains stream\<close>.
\<close>

definition short_part :: string where
  "short_part = ''obj 5 0'' @ [CHR 0x0A] @ ''Type: /ObjStm'' @ [CHR 0x0A] @ ''Referencing: ''"

definition short_part_parser ::
  "string \<Rightarrow> string \<Rightarrow> pp_options \<Rightarrow> (pp_result \<times> string set) option" where
  "short_part_parser path working_dir options =
     Some (no_result\<lparr>r_parts := Some [short_part]\<rparr>, {})"

definition short_part_env :: env where
  "short_part_env = env0\<lparr>PDFParserMain := short_part_parser\<rparr>"

text \<open>A container, object 5, whose report has no stream: its fourth line is its dictionary.\<close>

definition no_stream_parser ::
  "string \<Rightarrow> string \<Rightarrow> pp_options \<Rightarrow> (pp_result \<times> string set) option" where
  "no_stream_parser path working_dir options =
     Some (no_result\<lparr>r_parts := Some [part ''5'' ''/ObjStm'' [] ''<< /N 1 /First 4 >>''],
                      r_files := Some [(''embedded'', [''/w/objstm_5_0''])]\<rparr>, {})"

definition no_stream_env :: env where
  "no_stream_env = env0\<lparr>PDFParserMain := no_stream_parser\<rparr>"

text \<open>
  A page, object 3, whose annotation list points to the annotation 4, which points to
  its popup annotation 5. The search for \<^verbatim>\<open>Annot\<close> reports the page and the popup.
\<close>

definition annot_parser ::
  "string \<Rightarrow> string \<Rightarrow> pp_options \<Rightarrow> (pp_result \<times> string set) option" where
  "annot_parser path working_dir options =
     (if o_search options = Some ''Annot''
      then Some (no_result\<lparr>r_parts := Some
                  [part ''3'' ''/Page'' ''4 0 R'' ''<< /Type /Page /Annots [4 0 R] >>++>>'',
                   part ''5'' ''/Annot'' ''4 0 R''
                     ''<< /Type /Annot /Subtype /Popup /Parent 4 0 R >>'']\<rparr>, {})
      else if o_object options = Some (Obj ''4'')
      then Some (no_result\<lparr>r_parts := Some
                  [part ''4'' ''/Annot'' ''5 0 R''
                     ''<< /Type /Annot /Subtype /Text /Popup 5 0 R >>''],
                  r_obj_details := Some ''<< /Type /Annot /Subtype /Text /Popup 5 0 R >>''\<rparr>, {})
      else None)"

definition annot_env :: env where
  "annot_env = env0\<lparr>PDFParserMain := annot_parser\<rparr>"

text \<open>
  A catalog, object 1, whose open action is the reference \<^verbatim>\<open>4 0 R\<close>; the parser fails
  on every query for a single object.
\<close>

definition openaction_parser ::
  "string \<Rightarrow> string \<Rightarrow> pp_options \<Rightarrow> (pp_result \<times> string set) option" where
  "openaction_parser path working_dir options =
     (if o_search options = Some ''OpenAction''
      then Some (no_result\<lparr>r_parts := Some
                  [part ''1'' ''/Catalog'' ''4 0 R''
                     ''<< /Type /Catalog /OpenAction 4 0 R >>++>>'']\<rparr>, {})
      else None)"

definition openaction_env :: env where
  "openaction_env = env0\<lparr>PDFParserMain := openaction_parser\<rparr>"

text \<open>An action, object 5, found by the searches for \<^verbatim>\<open>JavaScript\<close> and for \<^verbatim>\<open>JS\<close>.\<close>

definition js_part :: string where
  "js_part = part ''5'' ''/Action'' [] ''<< /S /JavaScript /JS (app.alert(1)) >>++>>''"

definition js_parser ::
  "string \<Rightarrow> string \<Rightarrow> pp_options \<Rightarrow> (pp_result \<times> string set) option" where
  "js_parser path working_dir options =
     (if o_search options = Some ''JavaScript'' \<or> o_search options = Some ''JS''
      then Some (no_result\<lparr>r_parts := Some [js_part]\<rparr>, {})
      else None)"

definition js_env :: env where
  "js_env = env0\<lparr>PDFParserMain := js_parser\<rparr>"

text \<open>
  Two objects found by the search for \<^verbatim>\<open>JBIG2Decode\<close>: object 5 names the filter in a
  dictionary and has no stream, object 8 is an image with a stream.
\<close>

definition jbig_plain_part :: string where
  "jbig_plain_part = part ''5'' [] [] ''<< /Filter /JBIG2Decode >>''"

definition jbig_stream_part :: string where
  "jbig_stream_part = part ''8'' ''/XObject'' []
     (''Contains stream'' @ [CHR 0x0A] @ ''<< /Type /XObject /Filter /JBIG2Decode >>'')"

text \<open>
  A document of one page in which PDFiD flags nothing, and the same document reported
  with a size of 3000000 bytes.
\<close>

definition plain_env :: env where
  "plain_env = env0\<lparr>PDFiDMain := (\<lambda>path keywords plugins deep.
                 Some (\<lparr>d_flags = Some [[''/Page'', ''1'']], d_plugin = None\<rparr>, []))\<rparr>"

definition big_env :: env where
  "big_env = plain_env\<lparr>getsize := (\<lambda>path. 3000000)\<rparr>"

section \<open>Properties\<close>

subsection \<open>Object streams\<close>

lemma objstm_loop_invariant:
  assumes "objstm_loop E path working_dir ps st w = Inr (st', w')"
    and "distinct (map fst (reconstructed st))"
    and "fst ` set (reconstructed st) = objstm_extracted st"
    and "snd ` set (reconstructed st) = obj_files st"
  shows "distinct (map fst (reconstructed st')) \<and>
         fst ` set (reconstructed st') = objstm_extracted st' \<and>
         snd ` set (reconstructed st') = obj_files st'"
  using assms
proof (induction ps arbitrary: st w)
  case Nil
  then show ?case by simp
next
  case (Cons p ps)
  show ?case
  proof (cases "contains p ''Type: /ObjStm''")
    case False
    with Cons.prems have "objstm_loop E path working_dir ps st w = Inr (st', w')" by simp
    from Cons.IH [OF this Cons.prems(2-4)] show ?thesis .
  next
    case True
    note isobj = this
    from Cons.prems(1) isobj obtain getobj where g: "objnum_of p = Inr getobj"
      by (cases "objnum_of p") auto
    show ?thesis
    proof (cases "getobj \<in> objstm_extracted st")
      case True
      with Cons.prems(1) isobj g
      have "objstm_loop E path working_dir ps st w = Inr (st', w')" by simp
      from Cons.IH [OF this Cons.prems(2-4)] show ?thesis .
    next
      case False
      define st1 where "st1 = st\<lparr>idx := idx st + 1\<rparr>"
      define dump_file where
        "dump_file = path_join (working_directory E) (''objstm_'' @ getobj @ ''_'' @ str_nat (idx st))"
      from Cons.prems(1) isobj g False obtain obj_file w1
        where wr: "write_objstm E path working_dir getobj dump_file w = Inr (obj_file, w1)"
        by (cases "write_objstm E path working_dir getobj dump_file w")
           (auto simp: dump_file_def Let_def)
      show ?thesis
      proof (cases "obj_file = None \<or> obj_file = Some []")
        case True
        with Cons.prems(1) isobj g False wr
        have "objstm_loop E path working_dir ps st1 w1 = Inr (st', w')"
          by (auto simp: dump_file_def st1_def Let_def)
        moreover have "distinct (map fst (reconstructed st1))"
          "fst ` set (reconstructed st1) = objstm_extracted st1"
          "snd ` set (reconstructed st1) = obj_files st1"
          using Cons.prems(2-4) by (simp_all add: st1_def)
        ultimately show ?thesis by (rule Cons.IH)
      next
        case nonempty: False
        then obtain f where f: "obj_file = Some f" "f \<noteq> []" by auto
        define st2 where
          "st2 = st1\<lparr>objstm_extracted := insert getobj (objstm_extracted st1),
                       obj_files := insert f (obj_files st1),
                       reconstructed := reconstructed st1 @ [(getobj, f)]\<rparr>"
        from Cons.prems(1) isobj g False wr f
        have "objstm_loop E path working_dir ps st2 w1 = Inr (st', w')"
          by (simp add: dump_file_def st1_def st2_def Let_def)
        moreover have "distinct (map fst (reconstructed st2))"
          using Cons.prems(2,3) False by (auto simp: st2_def st1_def)
        moreover have "fst ` set (reconstructed st2) = objstm_extracted st2"
          using Cons.prems(3) by (auto simp: st2_def st1_def)
        moreover have "snd ` set (reconstructed st2) = obj_files st2"
          using Cons.prems(4) by (auto simp: st2_def st1_def)
        ultimately show ?thesis by (rule Cons.IH)
      qed
    qed
  qed
qed


lemma stream_present_loop_none:
  assumes "\<forall>p \<in> set ps. \<exists>line. item (splitn [CHR 0x0A] 4 p) 3 = Inr line \<and>
                                 line \<noteq> ''Contains stream''"
  shows "stream_present_loop ps sp = Inr sp"
  using assms by (induction ps arbitrary: sp) auto


lemma repeated_objstm_run:
  "analyze_objstm_run repeated_objstm_env ''doc.pdf'' ''/w'' False world0 =
     Inr (\<lparr>idx = 2, objstm_extracted = {''5'', ''7''},
            obj_files = {''/w/objstm_5_0'', ''/w/objstm_7_1''},
            reconstructed = [(''5'', ''/w/objstm_5_0''), (''7'', ''/w/objstm_7_1'')]\<rparr>,
          \<lparr>written = [(''/w/objstm_5_0'', mock_pdf (b ''<<>>'')),
                      (''/w/objstm_7_1'', mock_pdf (b ''<<>>''))],
            added = []\<rparr>)"
  by code_simp

text \<open>
  C10. One call of \<^verbatim>\<open>analyze_objstm\<close> reconstructs each container object number at
  most once: the container numbers of the successful \<^verbatim>\<open>write_objstm\<close> calls are pairwise
  different, they are exactly the recorded set \<^verbatim>\<open>objstm_extracted\<close>, the returned set
  \<^verbatim>\<open>obj_files\<close> holds exactly the files of those calls, and so it has at most one entry
  per container object number.
\<close>

theorem analyze_objstm_one_per_container:
  assumes "analyze_objstm_run E path working_dir deep_scan w = Inr (st, w')"
  shows "analyze_objstm E path working_dir deep_scan w = Inr (obj_files st, w') \<and>
         distinct (map fst (reconstructed st)) \<and>
         objstm_extracted st = fst ` set (reconstructed st) \<and>
         obj_files st = snd ` set (reconstructed st) \<and>
         card (obj_files st) \<le> card (objstm_extracted st)"
proof -
  have inv: "distinct (map fst (reconstructed st)) \<and>
             fst ` set (reconstructed st) = objstm_extracted st \<and>
             snd ` set (reconstructed st) = obj_files st"
  proof (cases "fst (get_pdf_parser E path working_dir (options_objstm deep_scan))")
    case None
    with assms have "st = objstm_state0"
      by (auto simp: analyze_objstm_run_def split: prod.splits)
    then show ?thesis by (simp add: objstm_state0_def)
  next
    case (Some res)
    show ?thesis
    proof (cases "r_parts res")
      case None
      with Some assms have "st = objstm_state0"
        by (auto simp: analyze_objstm_run_def split: prod.splits)
      then show ?thesis by (simp add: objstm_state0_def)
    next
      case (Some parts)
      with \<open>fst (get_pdf_parser E path working_dir (options_objstm deep_scan)) = Some res\<close> assms
      have "objstm_loop E path working_dir (sort parts) objstm_state0 w = Inr (st, w')"
        by (auto simp: analyze_objstm_run_def split: prod.splits)
      then show ?thesis
        by (rule objstm_loop_invariant) (simp_all add: objstm_state0_def)
    qed
  qed
  have "card (snd ` set (reconstructed st)) \<le> card (set (reconstructed st))"
    by (rule card_image_le) simp
  also have "\<dots> = length (reconstructed st)"
    using inv by (metis distinct_card distinct_map)
  also have "\<dots> = card (fst ` set (reconstructed st))"
    using inv by (metis distinct_card length_map set_map)
  finally have "card (obj_files st) \<le> card (objstm_extracted st)"
    using inv by simp
  with inv assms show ?thesis
    by (simp add: analyze_objstm_def)
qed

theorem analyze_objstm_one_per_container_witness:
  "analyze_objstm repeated_objstm_env ''doc.pdf'' ''/w'' False world0 =
     Inr ({''/w/objstm_5_0'', ''/w/objstm_7_1''},
          \<lparr>written = [(''/w/objstm_5_0'', mock_pdf (b ''<<>>'')),
                      (''/w/objstm_7_1'', mock_pdf (b ''<<>>''))],
            added = []\<rparr>) \<and>
   distinct (map fst [(''5'', ''/w/objstm_5_0''), (''7'', ''/w/objstm_7_1'')]) \<and>
   card {''/w/objstm_5_0'', ''/w/objstm_7_1''} \<le> card {''5'', ''7''}"
  using analyze_objstm_one_per_container [OF repeated_objstm_run] by simp




text \<open>
  Reports without a stream, when every part has a fourth line. If the dump query for a
  container has no result, or its result has parts with a fourth line that is not
  \<^verbatim>\<open>Contains stream\<close>, \<^verbatim>\<open>write_objstm\<close> returns \<^verbatim>\<open>None\<close> without an exception and
  without touching a file, and the loop of \<^verbatim>\<open>analyze_objstm\<close> goes on to the next part
  with nothing recorded for the container but the advanced index.
\<close>

lemma write_objstm_four_line_parts:
  assumes "get_pdf_parser E path working_dir (options_dump objstm objstm_path) = (res, err)"
    and "\<forall>sub. res = Some sub \<and> truthy sub \<longrightarrow>
           (\<exists>ps. r_parts sub = Some ps \<and>
             (\<forall>p \<in> set ps. \<exists>line. item (splitn [CHR 0x0A] 4 p) 3 = Inr line \<and>
                                    line \<noteq> ''Contains stream''))"
  shows "write_objstm E path working_dir objstm objstm_path w = Inr (None, w) \<and>
         (contains p ''Type: /ObjStm'' \<and> objnum_of p = Inr objstm \<and>
          objstm \<notin> objstm_extracted st \<and>
          objstm_path = path_join (working_directory E)
                          (''objstm_'' @ objstm @ ''_'' @ str_nat (idx st)) \<longrightarrow>
          objstm_loop E path working_dir (p # rest) st w =
            objstm_loop E path working_dir rest (st\<lparr>idx := idx st + 1\<rparr>) w)"
proof -
  have wr: "write_objstm E path working_dir objstm objstm_path w = Inr (None, w)"
  proof (cases res)
    case None
    with assms(1) show ?thesis by (simp add: write_objstm_def)
  next
    case (Some sub)
    show ?thesis
    proof (cases "truthy sub")
      case False
      with Some assms(1) show ?thesis by (simp add: write_objstm_def)
    next
      case True
      with Some assms(2) obtain ps where ps: "r_parts sub = Some ps"
        and ns: "\<forall>p \<in> set ps. \<exists>line. item (splitn [CHR 0x0A] 4 p) 3 = Inr line \<and>
                                      line \<noteq> ''Contains stream''"
        by blast
      have "stream_present_loop ps False = Inr False"
        using ns by (rule stream_present_loop_none)
      with Some True ps assms(1) show ?thesis by (simp add: write_objstm_def)
    qed
  qed
  then show ?thesis by (auto simp: Let_def)
qed

lemma write_objstm_four_line_parts_example:
  "write_objstm no_stream_env ''doc.pdf'' ''/w'' ''5'' ''/w/objstm_5_0'' world0 = Inr (None, world0) \<and>
   objstm_loop no_stream_env ''doc.pdf'' ''/w''
      [part ''5'' ''/ObjStm'' [] ''<< /N 1 /First 4 >>''] objstm_state0 world0 =
     Inr (objstm_state0\<lparr>idx := 1\<rparr>, world0)"
proof -
  let ?p = "part ''5'' ''/ObjStm'' [] ''<< /N 1 /First 4 >>''"
  let ?sub = "no_result\<lparr>r_parts := Some [?p], r_files := Some [(''embedded'', [''/w/objstm_5_0''])]\<rparr>"
  have h1: "get_pdf_parser no_stream_env ''doc.pdf'' ''/w'' (options_dump ''5'' ''/w/objstm_5_0'') =
              (Some ?sub, {})"
    by (simp add: get_pdf_parser_def no_stream_env_def env0_def no_stream_parser_def)
  have "item (splitn [CHR 0x0A] 4 ?p) 3 = Inr ''<< /N 1 /First 4 >>''" by code_simp
  then have h2: "\<forall>sub. Some ?sub = Some sub \<and> truthy sub \<longrightarrow>
           (\<exists>ps. r_parts sub = Some ps \<and>
             (\<forall>p \<in> set ps. \<exists>line. item (splitn [CHR 0x0A] 4 p) 3 = Inr line \<and>
                                    line \<noteq> ''Contains stream''))"
    by auto
  have c: "contains ?p ''Type: /ObjStm''" by (simp add: part_def contains_def)
  have n: "objnum_of ?p = Inr ''5''" by code_simp
  have d: "''/w/objstm_5_0'' = path_join (working_directory no_stream_env)
             (''objstm_'' @ ''5'' @ ''_'' @ str_nat (idx objstm_state0))"
    by code_simp
  from write_objstm_four_line_parts [OF h1 h2, of world0 ?p objstm_state0 "[]"] c n d
  show ?thesis by (simp add: objstm_state0_def)
qed

text \<open>
  C5. The report of container 5 has three lines, none of them \<^verbatim>\<open>Contains stream\<close>: no
  part is marked as containing a stream. Line 636 reads the fourth line of the part
  outside any \<^verbatim>\<open>try\<close>, so \<^verbatim>\<open>write_objstm\<close> raises IndexError instead of returning
  \<^verbatim>\<open>None\<close>, and the exception leaves \<^verbatim>\<open>analyze_objstm\<close>.
\<close>

theorem write_objstm_short_part_raises:
  "get_pdf_parser short_part_env ''doc.pdf'' ''/w'' (options_dump ''5'' ''/w/objstm_5_0'') =
     (Some (no_result\<lparr>r_parts := Some [short_part]\<rparr>), {}) \<and>
   \<not> contains short_part ''Contains stream'' \<and>
   splitn [CHR 0x0A] 4 short_part = [''obj 5 0'', ''Type: /ObjStm'', ''Referencing: ''] \<and>
   write_objstm short_part_env ''doc.pdf'' ''/w'' ''5'' ''/w/objstm_5_0'' world0 = Inl IndexError \<and>
   analyze_objstm short_part_env ''doc.pdf'' ''/w'' False world0 = Inl IndexError"
  by code_simp

subsection \<open>Carved content\<close>

lemma carve_entry_cases:
  assumes "carve_entry E (k, keyw, con) (cs, w) = Inr (cs', w')"
  shows "(length con < 500 \<and> w' = w \<and> carved_extracted_shas cs' = carved_extracted_shas cs) \<or>
         (500 \<le> length con \<and> sha256_hexdigest E (encode con) \<in> carved_extracted_shas cs \<and>
          cs' = cs \<and> w' = w) \<or>
         (500 \<le> length con \<and> sha256_hexdigest E (encode con) \<notin> carved_extracted_shas cs \<and>
          carved_extracted_shas cs' =
            insert (sha256_hexdigest E (encode con)) (carved_extracted_shas cs) \<and>
          (\<exists>crvf. written w' = written w @ [(crvf, encode con)]))"
  using assms by (auto simp: carve_entry_def Let_def split: if_splits)

lemma carve_all_snoc:
  "carve_all E (es @ [e]) sw =
     (case carve_all E es sw of Inl x \<Rightarrow> Inl x | Inr sw' \<Rightarrow> carve_entry E e sw')"
  by (induction es arbitrary: sw) (auto split: sum.splits)

lemma carve_all_invariant:
  assumes "carve_all E entries (cs, w) = Inr (cs', w')"
  shows "carved_extracted_shas cs \<subseteq> carved_extracted_shas cs' \<and>
         (\<forall>(k, keyw, con) \<in> set entries. 500 \<le> length con \<longrightarrow>
              sha256_hexdigest E (encode con) \<in> carved_extracted_shas cs') \<and>
         (\<exists>new. written w' = written w @ new \<and>
            (\<forall>d. length (filter (digest_is E d) new) =
                 (if d \<in> carved_extracted_shas cs' - carved_extracted_shas cs then 1 else 0)))"
  using assms
proof (induction entries arbitrary: cs' w' rule: rev_induct)
  case Nil
  then show ?case by simp
next
  case (snoc e es)
  obtain k keyw con where e: "e = (k, keyw, con)" by (cases e) auto
  from snoc.prems obtain cs1 w1 where mid: "carve_all E es (cs, w) = Inr (cs1, w1)"
    and step0: "carve_entry E e (cs1, w1) = Inr (cs', w')"
    by (auto simp: carve_all_snoc split: sum.splits)
  from snoc.IH [OF mid] obtain new where
    sub: "carved_extracted_shas cs \<subseteq> carved_extracted_shas cs1"
    and mem: "\<forall>(k, keyw, con) \<in> set es. 500 \<le> length con \<longrightarrow>
              sha256_hexdigest E (encode con) \<in> carved_extracted_shas cs1"
    and wr: "written w1 = written w @ new"
    and cnt: "\<forall>d. length (filter (digest_is E d) new) =
                 (if d \<in> carved_extracted_shas cs1 - carved_extracted_shas cs then 1 else 0)"
    by blast
  from step0 e have step: "carve_entry E (k, keyw, con) (cs1, w1) = Inr (cs', w')" by simp
  from carve_entry_cases [OF step] show ?case
  proof (elim disjE conjE exE)
    assume "length con < 500" "w' = w1" "carved_extracted_shas cs' = carved_extracted_shas cs1"
    with sub mem wr cnt e show ?thesis by auto
  next
    assume "500 \<le> length con" "sha256_hexdigest E (encode con) \<in> carved_extracted_shas cs1"
      "cs' = cs1" "w' = w1"
    with sub mem wr cnt e show ?thesis by auto
  next
    fix crvf
    assume a: "500 \<le> length con" "sha256_hexdigest E (encode con) \<notin> carved_extracted_shas cs1"
      "carved_extracted_shas cs' = insert (sha256_hexdigest E (encode con)) (carved_extracted_shas cs1)"
      "written w' = written w1 @ [(crvf, encode con)]"
    have 1: "carved_extracted_shas cs \<subseteq> carved_extracted_shas cs'" using sub a by auto
    have 2: "\<forall>(k, keyw, con) \<in> set (es @ [e]). 500 \<le> length con \<longrightarrow>
              sha256_hexdigest E (encode con) \<in> carved_extracted_shas cs'"
      using mem a e by auto
    have 3: "written w' = written w @ (new @ [(crvf, encode con)])" using wr a by simp
    have 4: "\<forall>d. length (filter (digest_is E d) (new @ [(crvf, encode con)])) =
                 (if d \<in> carved_extracted_shas cs' - carved_extracted_shas cs then 1 else 0)"
      using cnt a sub by (auto simp: digest_is_def)
    from 1 2 3 4 show ?thesis by blast
  qed
qed

lemma length_encode_replicate:
  "length (encode (replicate n c)) = n * length (encode_char c)"
  by (induction n) (simp_all add: encode_def)

lemma length_encode_Cons: "length (encode (c # s)) = length (encode_char c) + length (encode s)"
  by (simp add: encode_def)

text \<open>
  For text below U+0080 the two lengths agree, so there the branch taken is the one the
  number of encoded bytes gives: 499 bytes are inlined, 500 bytes go to an artifact.
\<close>

lemma length_encode_ascii:
  "\<forall>c \<in> set s. (of_char c :: 8 word) < 128 \<Longrightarrow> length (encode s) = length s"
  by (induction s) (simp_all add: encode_def encode_char_def)

lemma carve_entry_ascii_boundary:
  "effects (carve_entry E (k, keyw, replicate 499 (CHR ''a'')) (cs, w)) = Inr w \<and>
   (sha256_hexdigest E (encode (replicate 500 (CHR ''a''))) \<notin> carved_extracted_shas cs \<and>
    open_wb E (path_join (working_directory E)
                 (''carved_content_obj_'' @ k @ ''_'' @
                  take 7 (sha256_hexdigest E (encode (replicate 500 (CHR ''a'')))))) \<longrightarrow>
    map_sum id written (effects (carve_entry E (k, keyw, replicate 500 (CHR ''a'')) (cs, w))) =
      Inr (written w @ [(path_join (working_directory E)
                          (''carved_content_obj_'' @ k @ ''_'' @
                           take 7 (sha256_hexdigest E (encode (replicate 500 (CHR ''a''))))),
                        encode (replicate 500 (CHR ''a'')))]))"
  by (simp add: carve_entry_def Let_def effects_def)

text \<open>
  C1. The test of line 452 counts code points, not encoded bytes. A text of 499 code
  points whose UTF-8 encoding has 500 bytes takes the inline branch: whatever the
  libraries return, the entry raises nothing, no file is written and no digest is
  recorded for it.
\<close>

theorem carve_entry_threshold_counts_code_points:
  "length (CHR 0xE9 # replicate 498 (CHR ''a'')) = 499 \<and>
   length (encode (CHR 0xE9 # replicate 498 (CHR ''a''))) = 500 \<and>
   effects (carve_entry E (k, keyw, CHR 0xE9 # replicate 498 (CHR ''a'')) (cs, w)) = Inr w \<and>
   map_sum id carved_extracted_shas
     (returned (carve_entry E (k, keyw, CHR 0xE9 # replicate 498 (CHR ''a'')) (cs, w)))
     = Inr (carved_extracted_shas cs)"
proof -
  have 1: "length (CHR 0xE9 # replicate 498 (CHR ''a'')) = 499" by simp
  have "encode_char (CHR 0xE9) = [195, 169]" by (simp add: encode_char_def)
  moreover have "encode_char (CHR ''a'') = [97]" by (simp add: encode_char_def)
  ultimately have 2: "length (encode (CHR 0xE9 # replicate 498 (CHR ''a''))) = 500"
    by (simp add: length_encode_Cons length_encode_replicate)
  have 3: "effects (carve_entry E (k, keyw, CHR 0xE9 # replicate 498 (CHR ''a'')) (cs, w)) = Inr w"
    by (simp add: carve_entry_def Let_def effects_def)
  have 4: "map_sum id carved_extracted_shas
             (returned (carve_entry E (k, keyw, CHR 0xE9 # replicate 498 (CHR ''a'')) (cs, w)))
           = Inr (carved_extracted_shas cs)"
    by (simp add: carve_entry_def Let_def returned_def)
  from 1 2 3 4 show ?thesis by blast
qed

text \<open>
  On the artifact branch the deduplication works. In a pass that starts with an empty
  digest set and ends without an exception, two carved entries with the same encoded
  bytes and at least 500 code points lead to exactly one written artifact with their
  digest, whatever their object numbers, and the digest is in the set at the end. An
  entry whose digest is already in the set writes nothing and records nothing.
\<close>

lemma carved_content_deduplicated:
  assumes "carved_extracted_shas cs = {}"
    and "(k1, keyw1, con1) \<in> set entries"
    and "(k2, keyw2, con2) \<in> set entries"
    and "encode con1 = encode con2"
    and "500 \<le> length con1"
    and "carve_all E entries (cs, w) = Inr (cs', w')"
  shows "length (filter (digest_is E (sha256_hexdigest E (encode con1)))
                   (drop (length (written w)) (written w'))) = 1 \<and>
         sha256_hexdigest E (encode con1) \<in> carved_extracted_shas cs' \<and>
         sha256_hexdigest E (encode con2) = sha256_hexdigest E (encode con1) \<and>
         (\<forall>s v. sha256_hexdigest E (encode con2) \<in> carved_extracted_shas s \<longrightarrow>
                effects (carve_entry E (k2, keyw2, con2) (s, v)) = Inr v \<and>
                map_sum id carved_extracted_shas (returned (carve_entry E (k2, keyw2, con2) (s, v)))
                  = Inr (carved_extracted_shas s))"
proof -
  from carve_all_invariant [OF assms(6)] obtain new where
    mem: "\<forall>(k, keyw, con) \<in> set entries. 500 \<le> length con \<longrightarrow>
              sha256_hexdigest E (encode con) \<in> carved_extracted_shas cs'"
    and wr: "written w' = written w @ new"
    and cnt: "\<forall>d. length (filter (digest_is E d) new) =
                 (if d \<in> carved_extracted_shas cs' - carved_extracted_shas cs then 1 else 0)"
    by blast
  from mem assms(2,5) have in': "sha256_hexdigest E (encode con1) \<in> carved_extracted_shas cs'"
    by auto
  with cnt assms(1)
  have "length (filter (digest_is E (sha256_hexdigest E (encode con1))) new) = 1" by simp
  moreover have "drop (length (written w)) (written w') = new" using wr by simp
  moreover have "\<forall>s v. sha256_hexdigest E (encode con2) \<in> carved_extracted_shas s \<longrightarrow>
                effects (carve_entry E (k2, keyw2, con2) (s, v)) = Inr v \<and>
                map_sum id carved_extracted_shas (returned (carve_entry E (k2, keyw2, con2) (s, v)))
                  = Inr (carved_extracted_shas s)"
    by (simp add: carve_entry_def Let_def effects_def returned_def)
  ultimately show ?thesis using in' assms(4) by simp
qed

text \<open>
  C2. Two carved entries, of any two object numbers, with the same content of 499 code
  points and 500 encoded bytes: line 452 counts code points, so both take the inline
  branch. No artifact is written and no digest is recorded for them, where one artifact
  and one digest are specified for byte-identical content of 500 bytes.
\<close>

theorem byte_identical_entries_below_500_code_points:
  "length (encode (CHR 0xE9 # replicate 498 (CHR ''a''))) = 500 \<and>
   effects (carve_all E [(k1, keyw1, CHR 0xE9 # replicate 498 (CHR ''a'')),
                         (k2, keyw2, CHR 0xE9 # replicate 498 (CHR ''a''))] (cs, w)) = Inr w \<and>
   map_sum id carved_extracted_shas
     (returned (carve_all E [(k1, keyw1, CHR 0xE9 # replicate 498 (CHR ''a'')),
                             (k2, keyw2, CHR 0xE9 # replicate 498 (CHR ''a''))] (cs, w)))
     = Inr (carved_extracted_shas cs)"
proof -
  have "encode_char (CHR 0xE9) = [195, 169]" by (simp add: encode_char_def)
  moreover have "encode_char (CHR ''a'') = [97]" by (simp add: encode_char_def)
  ultimately have 1: "length (encode (CHR 0xE9 # replicate 498 (CHR ''a''))) = 500"
    by (simp add: length_encode_Cons length_encode_replicate)
  have 2: "effects (carve_all E [(k1, keyw1, CHR 0xE9 # replicate 498 (CHR ''a'')),
                         (k2, keyw2, CHR 0xE9 # replicate 498 (CHR ''a''))] (cs, w)) = Inr w"
    by (simp add: carve_entry_def Let_def effects_def)
  have 3: "map_sum id carved_extracted_shas
     (returned (carve_all E [(k1, keyw1, CHR 0xE9 # replicate 498 (CHR ''a'')),
                             (k2, keyw2, CHR 0xE9 # replicate 498 (CHR ''a''))] (cs, w)))
     = Inr (carved_extracted_shas cs)"
    by (simp add: carve_entry_def Let_def returned_def)
  from 1 2 3 show ?thesis by blast
qed

subsection \<open>The triage loop\<close>

lemma startswith_find_sub: "startswith s k \<Longrightarrow> find_sub k s \<noteq> None"
  by (cases s) (auto elim: startswith.elims)

lemma startswith_tail: "startswith (x # s) (y # k) \<Longrightarrow> startswith s k"
  by simp

lemma find_sub_tail: "find_sub (x # k) s \<noteq> None \<Longrightarrow> find_sub k s \<noteq> None"
proof (induction s)
  case Nil
  then show ?case by simp
next
  case (Cons c s)
  show ?case
  proof (cases "startswith (c # s) (x # k)")
    case True
    then have "startswith s k" by simp
    then have "find_sub k s \<noteq> None" by (rule startswith_find_sub)
    then show ?thesis by (auto split: option.splits)
  next
    case False
    with Cons.prems have "find_sub (x # k) s \<noteq> None" by (auto split: option.splits)
    then have "find_sub k s \<noteq> None" by (rule Cons.IH)
    then show ?thesis by (auto split: option.splits)
  qed
qed

lemma after_keyword_found:
  assumes "contains p (''/'' @ keyword)" and "keyword \<noteq> []"
  shows "\<exists>t. after_keyword keyword p = Inr t"
proof -
  from assms(1) have "find_sub (CHR ''/'' # keyword) p \<noteq> None"
    by (simp add: contains_def)
  then have "find_sub keyword p \<noteq> None" by (rule find_sub_tail)
  then obtain a t where "find_sub keyword p = Some (a, t)" by auto
  then have "splitn keyword 1 p = [a, t]" by simp
  with assms(2) show ?thesis by (simp add: after_keyword_def split_max_def item_def)
qed

lemma part_content_jbig: "part_content E ''JBIG2Decode'' p \<noteq> None"
proof (cases "startswith p ''trailer:'' \<and> contains p (''/'' @ ''JBIG2Decode'')")
  case True
  then obtain t where "after_keyword ''JBIG2Decode'' p = Inr t"
    using after_keyword_found [of p "''JBIG2Decode''"] by auto
  with True show ?thesis by (simp add: part_content_def Let_def)
next
  case False
  then show ?thesis by (auto simp: part_content_def Let_def)
qed

text \<open>
  C6, as the code has it. The guard of line 323 is for a part found under the keyword
  \<^verbatim>\<open>JBIG2Decode\<close> that contains \<^verbatim>\<open>/Filter\<close> and \<^verbatim>\<open>Contains stream\<close>. Such a part, with
  an object number on its first line, is never carved: its object number goes into
  \<^verbatim>\<open>jbig_objs\<close>, it is added to the extraction set only in deep scan, and the set of line
  539 that is handed to the parser for extraction leaves it out.
\<close>

theorem jbig2decode_stream_object:
  assumes "contains p ''/Filter''" and "contains p ''Contains stream''"
    and "objnum_of p = Inr objnum"
    and "st' = st\<lparr>obj_extract_triage :=
                     (if deep_scan then insert objnum (obj_extract_triage st)
                      else obj_extract_triage st),
                   jbig_objs := insert objnum (jbig_objs st)\<rparr>"
  shows "triage_part E path working_dir deep_scan tkeys ''JBIG2Decode'' p st = Inr st' \<and>
         carved_content st' = carved_content st \<and>
         objnum \<in> jbig_objs st' \<and>
         (objnum \<in> obj_extract_triage st' \<longrightarrow> deep_scan \<or> objnum \<in> obj_extract_triage st) \<and>
         objnum \<notin> obj_to_extract st' embed_extracted"
proof -
  obtain content references where "part_content E ''JBIG2Decode'' p = Some (content, references)"
    using part_content_jbig [of E p] by (cases "part_content E ''JBIG2Decode'' p") auto
  with assms show ?thesis
    by (simp add: triage_part_def obj_to_extract_def)
qed

theorem jbig2decode_stream_object_witness:
  "triage_part env0 ''doc.pdf'' ''/w'' False {''JBIG2Decode''} ''JBIG2Decode'' jbig_stream_part
     triage_state0 = Inr (triage_state0\<lparr>jbig_objs := {''8''}\<rparr>) \<and>
   triage_part env0 ''doc.pdf'' ''/w'' True {''JBIG2Decode''} ''JBIG2Decode'' jbig_stream_part
     triage_state0 = Inr (triage_state0\<lparr>obj_extract_triage := {''8''}, jbig_objs := {''8''}\<rparr>) \<and>
   ''8'' \<notin> obj_to_extract (triage_state0\<lparr>obj_extract_triage := {''8''}, jbig_objs := {''8''}\<rparr>) {}"
proof -
  have h1: "contains jbig_stream_part ''/Filter''" by code_simp
  have h2: "contains jbig_stream_part ''Contains stream''" by code_simp
  have h3: "objnum_of jbig_stream_part = Inr ''8''" by code_simp
  have h4: "triage_state0\<lparr>jbig_objs := {''8''}\<rparr> =
            triage_state0\<lparr>obj_extract_triage :=
                             (if False then insert ''8'' (obj_extract_triage triage_state0)
                              else obj_extract_triage triage_state0),
                           jbig_objs := insert ''8'' (jbig_objs triage_state0)\<rparr>"
    by (simp add: triage_state0_def)
  have h5: "triage_state0\<lparr>obj_extract_triage := {''8''}, jbig_objs := {''8''}\<rparr> =
            triage_state0\<lparr>obj_extract_triage :=
                             (if True then insert ''8'' (obj_extract_triage triage_state0)
                              else obj_extract_triage triage_state0),
                           jbig_objs := insert ''8'' (jbig_objs triage_state0)\<rparr>"
    by (simp add: triage_state0_def)
  from jbig2decode_stream_object [OF h1 h2 h3 h4, of env0 "''doc.pdf''" "''/w''" "{''JBIG2Decode''}" "{}"]
  have a: "triage_part env0 ''doc.pdf'' ''/w'' False {''JBIG2Decode''} ''JBIG2Decode'' jbig_stream_part
     triage_state0 = Inr (triage_state0\<lparr>jbig_objs := {''8''}\<rparr>)"
    by blast
  from jbig2decode_stream_object [OF h1 h2 h3 h5, of env0 "''doc.pdf''" "''/w''" "{''JBIG2Decode''}" "{}"]
  have b: "triage_part env0 ''doc.pdf'' ''/w'' True {''JBIG2Decode''} ''JBIG2Decode'' jbig_stream_part
     triage_state0 = Inr (triage_state0\<lparr>obj_extract_triage := {''8''}, jbig_objs := {''8''}\<rparr>) \<and>
     ''8'' \<notin> obj_to_extract (triage_state0\<lparr>obj_extract_triage := {''8''}, jbig_objs := {''8''}\<rparr>) {}"
    by blast
  from a b show ?thesis by blast
qed

text \<open>
  C6 as stated fails: a part found under \<^verbatim>\<open>JBIG2Decode\<close> that has no stream does not pass
  the guard and is carved like the part of any other keyword.
\<close>

theorem jbig2decode_counterexample:
  "triage_part env0 ''doc.pdf'' ''/w'' False {''JBIG2Decode''} ''JBIG2Decode'' jbig_plain_part
     triage_state0 =
   Inr (triage_state0\<lparr>carved_content :=
          [(''5'', [(''JBIG2Decode'', ''<< /Filter /JBIG2Decode >>'')])]\<rparr>)"
  by code_simp

lemma startswith_js_take5: "startswith c ''/JS'' \<Longrightarrow> contains (take 5 c) ''/JS''"
proof -
  assume "startswith c ''/JS''"
  then obtain r where "c = ''/JS'' @ r"
    by (cases c; cases "tl c"; cases "tl (tl c)") auto
  then show ?thesis by (cases r; cases "tl r") (auto simp: contains_def)
qed

text \<open>
  C8. When \<^verbatim>\<open>JS\<close> is among the triage keywords, a token found under the keyword
  \<^verbatim>\<open>JavaScript\<close> that begins with \<^verbatim>\<open>/JS\<close> is skipped: the state is unchanged, nothing
  is carved or extracted for it under \<^verbatim>\<open>JavaScript\<close>, and the hit is left to the keyword
  \<^verbatim>\<open>JS\<close>.
\<close>

theorem javascript_token_skipped:
  assumes "''JS'' \<in> tkeys" and "startswith c ''/JS''"
  shows "triage_token E path working_dir tkeys ''JavaScript'' p references c st = Inr st"
  using assms by (simp add: triage_token_def startswith_js_take5)

theorem javascript_token_skipped_witness:
  "triage_token js_env ''doc.pdf'' ''/w'' {''JS'', ''JavaScript''} ''JavaScript'' js_part [[]]
      ''/JS (app.alert(1))'' triage_state0 = Inr triage_state0 \<and>
   part_content js_env ''JavaScript'' js_part = Some (''/JS (app.alert(1))'', [[]]) \<and>
   triage_loop js_env ''doc.pdf'' ''/w'' False {''JS'', ''JavaScript''} [''JavaScript'', ''JS'']
      triage_state0 =
     Inr (triage_state0\<lparr>carved_content := [(''5'', [(''JS'', ''(app.alert(1))'')])]\<rparr>)"
proof -
  have h1: "''JS'' \<in> {''JS'', ''JavaScript''}" by simp
  have h2: "startswith ''/JS (app.alert(1))'' ''/JS''" by simp
  have a: "part_content js_env ''JavaScript'' js_part = Some (''/JS (app.alert(1))'', [[]])"
    by code_simp
  have b: "triage_loop js_env ''doc.pdf'' ''/w'' False {''JS'', ''JavaScript''} [''JavaScript'', ''JS'']
      triage_state0 =
     Inr (triage_state0\<lparr>carved_content := [(''5'', [(''JS'', ''(app.alert(1))'')])]\<rparr>)"
    by code_simp
  from javascript_token_skipped [OF h1 h2] a b show ?thesis by simp
qed

text \<open>
  C7. The open action of the catalog is the reference \<^verbatim>\<open>4 0 R\<close>, and the parser fails on
  the query for object 4, so \<^verbatim>\<open>get_pdf_parser\<close> returns \<^verbatim>\<open>None\<close>. The handler of line
  405 is not reached: nothing is extracted, nothing is carved, the hit is lost.
\<close>

theorem failed_resolution_drops_the_hit:
  "part_content openaction_env ''OpenAction''
      (part ''1'' ''/Catalog'' ''4 0 R'' ''<< /Type /Catalog /OpenAction 4 0 R >>++>>'') =
     Some (''4 0 R'', [''4 0 R'']) \<and>
   get_pdf_parser openaction_env ''doc.pdf'' ''/w'' (options_object ''4'') = (None, {}) \<and>
   triage_loop openaction_env ''doc.pdf'' ''/w'' False {''OpenAction''} [''OpenAction'']
      triage_state0 = Inr triage_state0"
  by code_simp

text \<open>
  C3 as stated fails: the annotation list of the page leads, through the annotation 4
  whose type is the keyword, to the extraction of object 5; the search also reports
  object 5 itself, whose text is carved. Object 5 is in the extraction set and a key of
  the carved content.
\<close>

theorem extraction_set_and_carved_overlap_counterexample:
  "triage_loop annot_env ''doc.pdf'' ''/w'' False {''Annot''} [''Annot''] triage_state0 =
     Inr (triage_state0\<lparr>carved_content :=
            [(''5'', [(''Annot'', ''<< /Type /Annot /Subtype /Popup /Parent 4 0 R >>'')])],
          obj_extract_triage := {''5''}\<rparr>) \<and>
   ''5'' \<in> {''5''} \<and>
   ''5'' \<in> fst ` set [(''5'', [(''Annot'', ''<< /Type /Annot /Subtype /Popup /Parent 4 0 R >>'')])]"
  by code_simp

text \<open>
  C3, as the code has it. Extraction wins within each decision: the classification of one
  report of a referenced object, and of one token that is not a reference, either adds to
  the extraction set or carves, never both, and it carves only where no stream is marked.
  Nothing keeps the two collections apart across decisions.
\<close>

theorem extraction_wins_in_each_decision:
  "(sub_part keyword details sub_p st = Inr st' \<longrightarrow>
      carved_content st' = carved_content st \<or>
      (obj_extract_triage st' = obj_extract_triage st \<and> \<not> contains sub_p ''Contains stream'')) \<and>
   (literal_token keyword p c st = Inr st'' \<longrightarrow>
      carved_content st'' = carved_content st \<or>
      (obj_extract_triage st'' = obj_extract_triage st \<and>
       item (splitn [CHR 0x0A] 4 p) 3 \<noteq> Inr ''Contains stream''))"
proof -
  have 1: "sub_part keyword details sub_p st = Inr st' \<longrightarrow>
      carved_content st' = carved_content st \<or>
      (obj_extract_triage st' = obj_extract_triage st \<and> \<not> contains sub_p ''Contains stream'')"
    by (auto simp: sub_part_def Let_def split: sum.splits if_splits option.splits)
  have 2: "literal_token keyword p c st = Inr st'' \<longrightarrow>
      carved_content st'' = carved_content st \<or>
      (obj_extract_triage st'' = obj_extract_triage st \<and>
       item (splitn [CHR 0x0A] 4 p) 3 \<noteq> Inr ''Contains stream'')"
    by (auto simp: literal_token_def split: sum.splits if_splits)
  from 1 2 show ?thesis by blast
qed


theorem extraction_wins_in_each_decision_witness:
  "sub_part ''Annot'' (Some ''<< /Type /Annot /Subtype /Text /Popup 5 0 R >>'')
      (part ''4'' ''/Annot'' ''5 0 R'' ''<< /Type /Annot /Subtype /Text /Popup 5 0 R >>'')
      triage_state0 = Inr (triage_state0\<lparr>obj_extract_triage := {''5''}\<rparr>) \<and>
   (carved_content (triage_state0\<lparr>obj_extract_triage := {''5''}\<rparr>) = carved_content triage_state0 \<or>
    (obj_extract_triage (triage_state0\<lparr>obj_extract_triage := {''5''}\<rparr>) =
       obj_extract_triage triage_state0 \<and>
     \<not> contains (part ''4'' ''/Annot'' ''5 0 R'' ''<< /Type /Annot /Subtype /Text /Popup 5 0 R >>'')
          ''Contains stream'')) \<and>
   literal_token ''Annot''
      (part ''5'' ''/Annot'' ''4 0 R'' ''<< /Type /Annot /Subtype /Popup /Parent 4 0 R >>'')
      ''<< /Type /Annot /Subtype /Popup /Parent 4 0 R >>'' triage_state0 =
     Inr (triage_state0\<lparr>carved_content :=
            [(''5'', [(''Annot'', ''<< /Type /Annot /Subtype /Popup /Parent 4 0 R >>'')])]\<rparr>) \<and>
   (carved_content (triage_state0\<lparr>carved_content :=
            [(''5'', [(''Annot'', ''<< /Type /Annot /Subtype /Popup /Parent 4 0 R >>'')])]\<rparr>) =
      carved_content triage_state0 \<or>
    (obj_extract_triage (triage_state0\<lparr>carved_content :=
            [(''5'', [(''Annot'', ''<< /Type /Annot /Subtype /Popup /Parent 4 0 R >>'')])]\<rparr>) =
       obj_extract_triage triage_state0 \<and>
     item (splitn [CHR 0x0A] 4
             (part ''5'' ''/Annot'' ''4 0 R'' ''<< /Type /Annot /Subtype /Popup /Parent 4 0 R >>'')) 3
       \<noteq> Inr ''Contains stream''))"
proof -
  let ?p = "part ''4'' ''/Annot'' ''5 0 R'' ''<< /Type /Annot /Subtype /Text /Popup 5 0 R >>''"
  let ?d = "Some ''<< /Type /Annot /Subtype /Text /Popup 5 0 R >>''"
  let ?st = "triage_state0\<lparr>obj_extract_triage := {''5''}\<rparr>"
  let ?q = "part ''5'' ''/Annot'' ''4 0 R'' ''<< /Type /Annot /Subtype /Popup /Parent 4 0 R >>''"
  let ?c = "''<< /Type /Annot /Subtype /Popup /Parent 4 0 R >>''"
  let ?st2 = "triage_state0\<lparr>carved_content := [(''5'', [(''Annot'', ?c)])]\<rparr>"
  have e: "sub_part ''Annot'' ?d ?p triage_state0 = Inr ?st" by code_simp
  have f: "literal_token ''Annot'' ?q ?c triage_state0 = Inr ?st2" by code_simp
  note inst = extraction_wins_in_each_decision
                [of "''Annot''" ?d ?p triage_state0 ?st ?q ?c ?st2]
  from inst have "sub_part ''Annot'' ?d ?p triage_state0 = Inr ?st \<longrightarrow>
        carved_content ?st = carved_content triage_state0 \<or>
        (obj_extract_triage ?st = obj_extract_triage triage_state0 \<and>
         \<not> contains ?p ''Contains stream'')"
    by (rule conjunct1)
  from this e have a: "carved_content ?st = carved_content triage_state0 \<or>
        (obj_extract_triage ?st = obj_extract_triage triage_state0 \<and>
         \<not> contains ?p ''Contains stream'')"
    by (rule mp)
  from inst have "literal_token ''Annot'' ?q ?c triage_state0 = Inr ?st2 \<longrightarrow>
        carved_content ?st2 = carved_content triage_state0 \<or>
        (obj_extract_triage ?st2 = obj_extract_triage triage_state0 \<and>
         item (splitn [CHR 0x0A] 4 ?q) 3 \<noteq> Inr ''Contains stream'')"
    by (rule conjunct2)
  from this f have b: "carved_content ?st2 = carved_content triage_state0 \<or>
        (obj_extract_triage ?st2 = obj_extract_triage triage_state0 \<and>
         item (splitn [CHR 0x0A] 4 ?q) 3 \<noteq> Inr ''Contains stream'')"
    by (rule mp)
  from e a f b show ?thesis by blast
qed

subsection \<open>The size test of \<^verbatim>\<open>execute\<close>\<close>

lemma objstm_docs_extends:
  "objstm_docs E deep_scan working_dir heur additional_keywords obj_cnt osfs (result, w) =
     Inr (result', w') \<Longrightarrow> \<exists>more. result' = result @ more"
proof (induction osfs arbitrary: heur obj_cnt result w)
  case Nil
  then show ?case by simp
next
  case (Cons osf rest)
  from Cons.prems obtain parent_obj where
    po: "item (split_all ''_'' (basename osf)) 1 = Inr parent_obj"
    by (cases "item (split_all ''_'' (basename osf)) 1") auto
  from Cons.prems po obtain res co errs w1 where
    an: "analyze_pdf E deep_scan
           (''ObjStream Object '' @ str_nat obj_cnt @ '' from Parent Object '' @ parent_obj)
           osf working_dir (objstm_heur heur) additional_keywords False w =
         Inr ((res, co, errs), w1)"
    by (auto split: sum.splits)
  from Cons.prems po an
  have "objstm_docs E deep_scan working_dir (objstm_heur heur) additional_keywords
          (obj_cnt + 1) rest (result @ [Document res], w1) = Inr (result', w')"
    by simp
  from Cons.IH [OF this] show ?case by auto
qed

lemma run_analysis_first_section:
  assumes "run_analysis E file_path deep_scan w = Inr (result, w')"
  shows "\<exists>res more. result = Document res # more"
proof -
  define wd where "wd = working_directory E"
  define ak where "ak = (case cfg_ADDITIONAL_KEYS E of None \<Rightarrow> [] | Some ks \<Rightarrow> ks)"
  define heur where "heur = (case cfg_HEURISTICS E of None \<Rightarrow> [] | Some hs \<Rightarrow> hs)"
  from assms obtain res co errs w1 where
    an: "analyze_pdf E deep_scan ''Main Document Results'' file_path wd heur ak True w =
           Inr ((res, co, errs), w1)"
    by (auto simp: run_analysis_def Let_def wd_def ak_def heur_def split: sum.splits)
  show ?thesis
  proof (cases co)
    case False
    with assms an have "result = [Document res] \<or> result = [Document res] @ [Errors errs]"
      by (auto simp: run_analysis_def Let_def wd_def ak_def heur_def split: if_splits)
    then show ?thesis by auto
  next
    case True
    from assms an True obtain files w2 where
      ao: "analyze_objstm E file_path wd deep_scan w1 = Inr (files, w2)"
      by (auto simp: run_analysis_def Let_def wd_def ak_def heur_def split: sum.splits)
    from assms an True ao obtain result3 w3 where
      od: "objstm_docs E deep_scan wd heur ak 1 (iter_order E files) ([Document res], w2) =
             Inr (result3, w3)"
      and r: "result = (if errs \<noteq> {} then result3 @ [Errors errs] else result3)"
      by (auto simp: run_analysis_def Let_def wd_def ak_def heur_def split: sum.splits)
    from objstm_docs_extends [OF od] obtain more where "result3 = [Document res] @ more" by blast
    with r show ?thesis by auto
  qed
qed

text \<open>
  C9, as the code has it. \<^verbatim>\<open>execute\<close> has a size budget of its own: with deep scan off, a
  file of \<^verbatim>\<open>MAX_PDF_SIZE\<close> bytes or more (3000000 unless configured) is not analysed, and
  the result is the one section that says so. A smaller file, and every file in deep
  scan, is analysed, and the result then starts with the section of the main document.
\<close>

theorem execute_size_gate:
  "(max_size E \<le> int (getsize E file_path) \<and> \<not> deep_scan \<longrightarrow>
      execute E file_path deep_scan w = Inr ([TooBig], w)) \<and>
   (int (getsize E file_path) < max_size E \<or> deep_scan \<longrightarrow>
      execute E file_path deep_scan w = run_analysis E file_path deep_scan w \<and>
      execute E file_path deep_scan w \<noteq> Inr ([TooBig], w'))"
proof -
  have "run_analysis E file_path deep_scan w \<noteq> Inr ([TooBig], w')"
    using run_analysis_first_section [of E file_path deep_scan w "[TooBig]" w'] by auto
  then show ?thesis by (auto simp: execute_def)
qed

lemma plain_run:
  "run_analysis plain_env ''doc.pdf'' False world0 =
     Inr ([Document \<lparr>res_txt = ''Main Document Results'', jbig_listed = {},
                     content_of_interest = []\<rparr>], world0)"
  by code_simp

theorem execute_size_gate_witness:
  "execute big_env ''doc.pdf'' False world0 = Inr ([TooBig], world0) \<and>
   execute plain_env ''doc.pdf'' False world0 =
     Inr ([Document \<lparr>res_txt = ''Main Document Results'', jbig_listed = {},
                     content_of_interest = []\<rparr>], world0) \<and>
   execute big_env ''doc.pdf'' True world0 = run_analysis big_env ''doc.pdf'' True world0"
proof -
  have s1: "max_size big_env \<le> int (getsize big_env ''doc.pdf'') \<and> \<not> False"
    by (simp add: max_size_def big_env_def plain_env_def env0_def)
  have s2: "int (getsize plain_env ''doc.pdf'') < max_size plain_env \<or> False"
    by (simp add: max_size_def plain_env_def env0_def)
  from execute_size_gate [of big_env "''doc.pdf''" False world0] s1
  have a: "execute big_env ''doc.pdf'' False world0 = Inr ([TooBig], world0)" by blast
  from execute_size_gate [of plain_env "''doc.pdf''" False world0] s2
  have b: "execute plain_env ''doc.pdf'' False world0 = run_analysis plain_env ''doc.pdf'' False world0"
    by blast
  from execute_size_gate [of big_env "''doc.pdf''" True world0]
  have c: "execute big_env ''doc.pdf'' True world0 = run_analysis big_env ''doc.pdf'' True world0"
    by blast
  from a b c plain_run show ?thesis by simp
qed

text \<open>
  C9 as stated fails: the same document is analysed when its size is 0 and skipped,
  without a call of PDFiD or of the parser, when its size is 3000000 bytes.
\<close>

theorem execute_size_limit_counterexample:
  "getsize big_env ''doc.pdf'' = 3000000 \<and>
   execute big_env ''doc.pdf'' False world0 = Inr ([TooBig], world0) \<and>
   execute plain_env ''doc.pdf'' False world0 =
     Inr ([Document \<lparr>res_txt = ''Main Document Results'', jbig_listed = {},
                     content_of_interest = []\<rparr>], world0)"
proof -
  have 1: "getsize big_env ''doc.pdf'' = 3000000"
    by (simp add: big_env_def)
  have 2: "execute big_env ''doc.pdf'' False world0 = Inr ([TooBig], world0)"
    by (simp add: execute_def max_size_def big_env_def plain_env_def env0_def)
  have "execute plain_env ''doc.pdf'' False world0 = run_analysis plain_env ''doc.pdf'' False world0"
    by (simp add: execute_def max_size_def plain_env_def env0_def)
  with plain_run have 3: "execute plain_env ''doc.pdf'' False world0 =
     Inr ([Document \<lparr>res_txt = ''Main Document Results'', jbig_listed = {},
                     content_of_interest = []\<rparr>], world0)" by simp
  from 1 2 3 show ?thesis by blast
qed

end
